theory Spec2Isabelle
  imports Complex_Main
begin

section \<open>Numbers and the value types of the 3D library\<close>

text \<open>
  The program computes with JavaScript numbers. They are modelled as the reals: every
  arithmetic operation is exact, and there is no NaN, no infinity and no signed zero.
  Two places keep the values that are not finite: the parser (\<open>number\<close>) and the
  return statement of the solver (\<open>jsnum\<close>).
  A division by zero, which JavaScript answers with an infinity or NaN, is HOL's
  \<open>x / 0 = 0\<close>; it arises only in \<open>decompose\<close> and \<open>setFromRotationMatrix\<close> on
  a matrix with a zero column or a degenerate rotation block.
  Array reads are written with \<open>!\<close>. A read out of range is \<open>undefined\<close> in
  JavaScript and NaN in the arithmetic that follows, which has no counterpart here: the
  theorems about the chain assume the lengths the program's callers supply (6 joint
  angles, 7 entries per DH array), where every index the code reads is in range.

  \<open>Vector3\<close>, \<open>Quaternion\<close>, \<open>Euler\<close> and \<open>Matrix4\<close> are the value
  types of the three.js library the program imports; their operations are written here
  as the library computes them, one function per method the program calls. \<open>Matrix4\<close>
  lists its sixteen entries row by row, in the argument order of the library's
  \<open>Matrix4.set\<close>.
\<close>

datatype Vector3 = Vector3 (vx: real) (vy: real) (vz: real)

datatype Quaternion = Quaternion (qx: real) (qy: real) (qz: real) (qw: real)

datatype Euler = Euler (ex: real) (ey: real) (ez: real)

datatype Matrix4 = Matrix4
  (e11: real) (e12: real) (e13: real) (e14: real)
  (e21: real) (e22: real) (e23: real) (e24: real)
  (e31: real) (e32: real) (e33: real) (e34: real)
  (e41: real) (e42: real) (e43: real) (e44: real)

text \<open>\<open>new Matrix4()\<close> is the identity.\<close>

definition identity4 :: Matrix4 where
  "identity4 = Matrix4 1 0 0 0  0 1 0 0  0 0 1 0  0 0 0 1"

text \<open>\<open>a.multiply(b)\<close> stores \<open>a \<cdot> b\<close> in \<open>a\<close>; the model returns the product.\<close>

fun multiply :: "Matrix4 \<Rightarrow> Matrix4 \<Rightarrow> Matrix4" where
  "multiply (Matrix4 a11 a12 a13 a14 a21 a22 a23 a24 a31 a32 a33 a34 a41 a42 a43 a44)
            (Matrix4 b11 b12 b13 b14 b21 b22 b23 b24 b31 b32 b33 b34 b41 b42 b43 b44) =
     Matrix4
       (a11 * b11 + a12 * b21 + a13 * b31 + a14 * b41)
       (a11 * b12 + a12 * b22 + a13 * b32 + a14 * b42)
       (a11 * b13 + a12 * b23 + a13 * b33 + a14 * b43)
       (a11 * b14 + a12 * b24 + a13 * b34 + a14 * b44)
       (a21 * b11 + a22 * b21 + a23 * b31 + a24 * b41)
       (a21 * b12 + a22 * b22 + a23 * b32 + a24 * b42)
       (a21 * b13 + a22 * b23 + a23 * b33 + a24 * b43)
       (a21 * b14 + a22 * b24 + a23 * b34 + a24 * b44)
       (a31 * b11 + a32 * b21 + a33 * b31 + a34 * b41)
       (a31 * b12 + a32 * b22 + a33 * b32 + a34 * b42)
       (a31 * b13 + a32 * b23 + a33 * b33 + a34 * b43)
       (a31 * b14 + a32 * b24 + a33 * b34 + a34 * b44)
       (a41 * b11 + a42 * b21 + a43 * b31 + a44 * b41)
       (a41 * b12 + a42 * b22 + a43 * b32 + a44 * b42)
       (a41 * b13 + a42 * b23 + a43 * b33 + a44 * b43)
       (a41 * b14 + a42 * b24 + a43 * b34 + a44 * b44)"

definition makeTranslation :: "real \<Rightarrow> real \<Rightarrow> real \<Rightarrow> Matrix4" where
  "makeTranslation x y z = Matrix4 1 0 0 x  0 1 0 y  0 0 1 z  0 0 0 1"

definition makeRotationX :: "real \<Rightarrow> Matrix4" where
  "makeRotationX theta =
     Matrix4 1 0 0 0  0 (cos theta) (- sin theta) 0  0 (sin theta) (cos theta) 0  0 0 0 1"

definition makeRotationY :: "real \<Rightarrow> Matrix4" where
  "makeRotationY theta =
     Matrix4 (cos theta) 0 (sin theta) 0  0 1 0 0  (- sin theta) 0 (cos theta) 0  0 0 0 1"

definition makeRotationZ :: "real \<Rightarrow> Matrix4" where
  "makeRotationZ theta =
     Matrix4 (cos theta) (- sin theta) 0 0  (sin theta) (cos theta) 0 0  0 0 1 0  0 0 0 1"

text \<open>
  \<open>Matrix4.invert\<close>: the adjugate divided by the determinant; a matrix whose determinant
  is 0 becomes the zero matrix.
\<close>

fun invert :: "Matrix4 \<Rightarrow> Matrix4" where
  "invert (Matrix4 n11 n12 n13 n14 n21 n22 n23 n24 n31 n32 n33 n34 n41 n42 n43 n44) =
     (let t11 = n23 * n34 * n42 - n24 * n33 * n42 + n24 * n32 * n43 - n22 * n34 * n43 - n23 * n32 * n44 + n22 * n33 * n44;
          t12 = n14 * n33 * n42 - n13 * n34 * n42 - n14 * n32 * n43 + n12 * n34 * n43 + n13 * n32 * n44 - n12 * n33 * n44;
          t13 = n13 * n24 * n42 - n14 * n23 * n42 + n14 * n22 * n43 - n12 * n24 * n43 - n13 * n22 * n44 + n12 * n23 * n44;
          t14 = n14 * n23 * n32 - n13 * n24 * n32 - n14 * n22 * n33 + n12 * n24 * n33 + n13 * n22 * n34 - n12 * n23 * n34;
          det = n11 * t11 + n21 * t12 + n31 * t13 + n41 * t14
      in if det = 0 then Matrix4 0 0 0 0  0 0 0 0  0 0 0 0  0 0 0 0
         else
           (let detInv = 1 / det in
            Matrix4
              (t11 * detInv)
              (t12 * detInv)
              (t13 * detInv)
              (t14 * detInv)
              ((n24 * n33 * n41 - n23 * n34 * n41 - n24 * n31 * n43 + n21 * n34 * n43 + n23 * n31 * n44 - n21 * n33 * n44) * detInv)
              ((n13 * n34 * n41 - n14 * n33 * n41 + n14 * n31 * n43 - n11 * n34 * n43 - n13 * n31 * n44 + n11 * n33 * n44) * detInv)
              ((n14 * n23 * n41 - n13 * n24 * n41 - n14 * n21 * n43 + n11 * n24 * n43 + n13 * n21 * n44 - n11 * n23 * n44) * detInv)
              ((n13 * n24 * n31 - n14 * n23 * n31 + n14 * n21 * n33 - n11 * n24 * n33 - n13 * n21 * n34 + n11 * n23 * n34) * detInv)
              ((n22 * n34 * n41 - n24 * n32 * n41 + n24 * n31 * n42 - n21 * n34 * n42 - n22 * n31 * n44 + n21 * n32 * n44) * detInv)
              ((n14 * n32 * n41 - n12 * n34 * n41 - n14 * n31 * n42 + n11 * n34 * n42 + n12 * n31 * n44 - n11 * n32 * n44) * detInv)
              ((n12 * n24 * n41 - n14 * n22 * n41 + n14 * n21 * n42 - n11 * n24 * n42 - n12 * n21 * n44 + n11 * n22 * n44) * detInv)
              ((n14 * n22 * n31 - n12 * n24 * n31 - n14 * n21 * n32 + n11 * n24 * n32 + n12 * n21 * n34 - n11 * n22 * n34) * detInv)
              ((n23 * n32 * n41 - n22 * n33 * n41 - n23 * n31 * n42 + n21 * n33 * n42 + n22 * n31 * n43 - n21 * n32 * n43) * detInv)
              ((n12 * n33 * n41 - n13 * n32 * n41 + n13 * n31 * n42 - n11 * n33 * n42 - n12 * n31 * n43 + n11 * n32 * n43) * detInv)
              ((n13 * n22 * n41 - n12 * n23 * n41 - n13 * n21 * n42 + n11 * n23 * n42 + n12 * n21 * n43 - n11 * n22 * n43) * detInv)
              ((n12 * n23 * n31 - n13 * n22 * n31 + n13 * n21 * n32 - n11 * n23 * n32 - n12 * n21 * n33 + n11 * n22 * n33) * detInv)))"

text \<open>\<open>Vector3.setFromMatrixPosition\<close>: the translation column.\<close>

fun setFromMatrixPosition :: "Matrix4 \<Rightarrow> Vector3" where
  "setFromMatrixPosition (Matrix4 n11 n12 n13 n14 n21 n22 n23 n24 n31 n32 n33 n34 n41 n42 n43 n44) =
     Vector3 n14 n24 n34"

text \<open>\<open>Matrix4.determinant\<close>.\<close>

fun determinant :: "Matrix4 \<Rightarrow> real" where
  "determinant (Matrix4 n11 n12 n13 n14 n21 n22 n23 n24 n31 n32 n33 n34 n41 n42 n43 n44) =
     n41 * (n14 * n23 * n32 - n13 * n24 * n32 - n14 * n22 * n33 + n12 * n24 * n33 + n13 * n22 * n34 - n12 * n23 * n34) +
     n42 * (n11 * n23 * n34 - n11 * n24 * n33 + n14 * n21 * n33 - n13 * n21 * n34 + n13 * n24 * n31 - n14 * n23 * n31) +
     n43 * (n11 * n24 * n32 - n11 * n22 * n34 - n14 * n21 * n32 + n12 * n21 * n34 + n14 * n22 * n31 - n12 * n24 * n31) +
     n44 * (- n13 * n22 * n31 - n11 * n23 * n32 + n11 * n22 * n33 + n13 * n21 * n32 - n12 * n21 * n33 + n12 * n23 * n31)"

subsection \<open>Vectors\<close>

definition subVectors :: "Vector3 \<Rightarrow> Vector3 \<Rightarrow> Vector3" where
  "subVectors u v = Vector3 (vx u - vx v) (vy u - vy v) (vz u - vz v)"

definition multiplyScalar :: "Vector3 \<Rightarrow> real \<Rightarrow> Vector3" where
  "multiplyScalar v k = Vector3 (vx v * k) (vy v * k) (vz v * k)"

text \<open>\<open>Vector3.length\<close>.\<close>

definition vlength :: "Vector3 \<Rightarrow> real" where
  "vlength v = sqrt (vx v * vx v + vy v * vy v + vz v * vz v)"

definition dot :: "Vector3 \<Rightarrow> Vector3 \<Rightarrow> real" where
  "dot u v = vx u * vx v + vy u * vy v + vz u * vz v"

definition crossVectors :: "Vector3 \<Rightarrow> Vector3 \<Rightarrow> Vector3" where
  "crossVectors u v =
     Vector3 (vy u * vz v - vz u * vy v) (vz u * vx v - vx u * vz v) (vx u * vy v - vy u * vx v)"

text \<open>\<open>Vector3.normalize\<close> divides by \<open>length() || 1\<close>.\<close>

definition normalizeV :: "Vector3 \<Rightarrow> Vector3" where
  "normalizeV v =
     (let k = (if vlength v = 0 then 1 else vlength v)
      in Vector3 (vx v / k) (vy v / k) (vz v / k))"

text \<open>\<open>Vector3.lerpVectors(v1, v2, alpha)\<close>.\<close>

definition lerpVectors :: "Vector3 \<Rightarrow> Vector3 \<Rightarrow> real \<Rightarrow> Vector3" where
  "lerpVectors v1 v2 t =
     Vector3 (vx v1 + (vx v2 - vx v1) * t) (vy v1 + (vy v2 - vy v1) * t) (vz v1 + (vz v2 - vz v1) * t)"

subsection \<open>Quaternions and Euler angles\<close>

text \<open>\<open>a.multiply(b)\<close> on quaternions is \<open>multiplyQuaternions(a, b)\<close>.\<close>

definition multiplyQuaternions :: "Quaternion \<Rightarrow> Quaternion \<Rightarrow> Quaternion" where
  "multiplyQuaternions p q =
     Quaternion
       (qx p * qw q + qw p * qx q + qy p * qz q - qz p * qy q)
       (qy p * qw q + qw p * qy q + qz p * qx q - qx p * qz q)
       (qz p * qw q + qw p * qz q + qx p * qy q - qy p * qx q)
       (qw p * qw q - qx p * qx q - qy p * qy q - qz p * qz q)"

text \<open>\<open>Quaternion.invert\<close> is the conjugate: the library takes the quaternion as a unit one.\<close>

definition invertQuaternion :: "Quaternion \<Rightarrow> Quaternion" where
  "invertQuaternion q = Quaternion (- qx q) (- qy q) (- qz q) (qw q)"

text \<open>\<open>Quaternion.setFromRotationMatrix\<close> reads the upper-left 3x3 block.\<close>

fun setFromRotationMatrix :: "Matrix4 \<Rightarrow> Quaternion" where
  "setFromRotationMatrix (Matrix4 m11 m12 m13 m14 m21 m22 m23 m24 m31 m32 m33 m34 m41 m42 m43 m44) =
     (let tr = m11 + m22 + m33 in
      if tr > 0 then
        (let s = 0.5 / sqrt (tr + 1.0)
         in Quaternion ((m32 - m23) * s) ((m13 - m31) * s) ((m21 - m12) * s) (0.25 / s))
      else if m11 > m22 \<and> m11 > m33 then
        (let s = 2.0 * sqrt (1.0 + m11 - m22 - m33)
         in Quaternion (0.25 * s) ((m12 + m21) / s) ((m13 + m31) / s) ((m32 - m23) / s))
      else if m22 > m33 then
        (let s = 2.0 * sqrt (1.0 + m22 - m11 - m33)
         in Quaternion ((m12 + m21) / s) (0.25 * s) ((m23 + m32) / s) ((m13 - m31) / s))
      else
        (let s = 2.0 * sqrt (1.0 + m33 - m11 - m22)
         in Quaternion ((m13 + m31) / s) ((m23 + m32) / s) (0.25 * s) ((m21 - m12) / s)))"

text \<open>\<open>Vector3.applyQuaternion\<close>.\<close>

definition applyQuaternion :: "Vector3 \<Rightarrow> Quaternion \<Rightarrow> Vector3" where
  "applyQuaternion v q =
     (let tx = 2 * (qy q * vz v - qz q * vy v);
          ty = 2 * (qz q * vx v - qx q * vz v);
          tz = 2 * (qx q * vy v - qy q * vx v)
      in Vector3 (vx v + qw q * tx + qy q * tz - qz q * ty)
                 (vy v + qw q * ty + qz q * tx - qx q * tz)
                 (vz v + qw q * tz + qx q * ty - qy q * tx))"

text \<open>\<open>Matrix4.compose(position, quaternion, scale)\<close>.\<close>

definition compose :: "Vector3 \<Rightarrow> Quaternion \<Rightarrow> Vector3 \<Rightarrow> Matrix4" where
  "compose posn q sc =
     (let x = qx q; y = qy q; z = qz q; w = qw q;
          x2 = x + x; y2 = y + y; z2 = z + z;
          xx = x * x2; xy = x * y2; xz = x * z2;
          yy = y * y2; yz = y * z2; zz = z * z2;
          wx = w * x2; wy = w * y2; wz = w * z2;
          sx = vx sc; sy = vy sc; sz = vz sc
      in Matrix4
           ((1 - (yy + zz)) * sx) ((xy - wz) * sy) ((xz + wy) * sz) (vx posn)
           ((xy + wz) * sx) ((1 - (xx + zz)) * sy) ((yz - wx) * sz) (vy posn)
           ((xz - wy) * sx) ((yz + wx) * sy) ((1 - (xx + yy)) * sz) (vz posn)
           0 0 0 1)"

text \<open>
  \<open>Matrix4.decompose(position, quaternion, scale)\<close>: the three results as a triple.
  The scale is the length of each column of the 3x3 block (the first negated when the
  determinant is negative); the quaternion is read from the block with its columns
  divided by the scale.
\<close>

fun decompose :: "Matrix4 \<Rightarrow> Vector3 \<times> Quaternion \<times> Vector3" where
  "decompose (Matrix4 n11 n12 n13 n14 n21 n22 n23 n24 n31 n32 n33 n34 n41 n42 n43 n44) =
     (let sx0 = vlength (Vector3 n11 n21 n31);
          sy = vlength (Vector3 n12 n22 n32);
          sz = vlength (Vector3 n13 n23 n33);
          det = determinant (Matrix4 n11 n12 n13 n14 n21 n22 n23 n24 n31 n32 n33 n34 n41 n42 n43 n44);
          sx = (if det < 0 then - sx0 else sx0);
          invSX = 1 / sx; invSY = 1 / sy; invSZ = 1 / sz;
          m1 = Matrix4 (n11 * invSX) (n12 * invSY) (n13 * invSZ) n14
                       (n21 * invSX) (n22 * invSY) (n23 * invSZ) n24
                       (n31 * invSX) (n32 * invSY) (n33 * invSZ) n34
                       n41 n42 n43 n44
      in (Vector3 n14 n24 n34, setFromRotationMatrix m1, Vector3 sx sy sz))"

text \<open>JavaScript's \<open>Math.atan2(y, x)\<close> on the reals.\<close>

definition atan2 :: "real \<Rightarrow> real \<Rightarrow> real" where
  "atan2 y x =
     (if x > 0 then arctan (y / x)
      else if x < 0 then (if y \<ge> 0 then arctan (y / x) + pi else arctan (y / x) - pi)
      else if y > 0 then pi / 2
      else if y < 0 then - (pi / 2)
      else 0)"

definition clamp :: "real \<Rightarrow> real \<Rightarrow> real \<Rightarrow> real" where
  "clamp v lo hi = max lo (min hi v)"

text \<open>\<open>Euler.setFromRotationMatrix\<close> in the default order XYZ.\<close>

fun eulerFromRotationMatrix :: "Matrix4 \<Rightarrow> Euler" where
  "eulerFromRotationMatrix (Matrix4 m11 m12 m13 m14 m21 m22 m23 m24 m31 m32 m33 m34 m41 m42 m43 m44) =
     (let y = arcsin (clamp m13 (-1) 1) in
      if \<bar>m13\<bar> < 0.9999999
      then Euler (atan2 (- m23) m33) y (atan2 (- m12) m11)
      else Euler (atan2 m32 m22) y 0)"

text \<open>\<open>Euler.setFromQuaternion\<close>: through the rotation matrix of the quaternion.\<close>

definition eulerFromQuaternion :: "Quaternion \<Rightarrow> Euler" where
  "eulerFromQuaternion q = eulerFromRotationMatrix (compose (Vector3 0 0 0) q (Vector3 1 1 1))"

text \<open>\<open>Quaternion.setFromEuler\<close> in the order XYZ.\<close>

definition quaternionFromEuler :: "Euler \<Rightarrow> Quaternion" where
  "quaternionFromEuler e =
     (let c1 = cos (ex e / 2); c2 = cos (ey e / 2); c3 = cos (ez e / 2);
          s1 = sin (ex e / 2); s2 = sin (ey e / 2); s3 = sin (ez e / 2)
      in Quaternion (s1 * c2 * c3 + c1 * s2 * s3) (c1 * s2 * c3 - s1 * c2 * s3)
                    (c1 * c2 * s3 + s1 * s2 * c3) (c1 * c2 * c3 - s1 * s2 * s3))"

section \<open>The kinematics service\<close>

text \<open>
  The service keeps the four DH arrays as instance fields (\<open>d\<close>, \<open>a\<close>, \<open>alpha\<close>,
  \<open>jointOffsets\<close>); every method reads them, so the model passes the service record
  to each function. The fields carry the prefix \<open>dh_\<close>.
\<close>

record KinematicsService =
  dh_d :: "real list"
  dh_a :: "real list"
  dh_alpha :: "real list"
  dh_jointOffsets :: "real list"

text \<open>The field initialisers of the class.\<close>

definition kinematics :: KinematicsService where
  "kinematics = \<lparr> dh_d = [0, 563, -180, 180, 160, 0, 0],
                  dh_a = [0, 220, 900, 0, 1013.5, 200, 0],
                  dh_alpha = [0, 0, 0, 0, 0, 0, 0],
                  dh_jointOffsets = [-90, 0, 90, 0, 0, 45, 0] \<rparr>"

text \<open>
  A pose: position in millimetres and the angles \<open>a\<close>, \<open>b\<close>, \<open>c\<close> in degrees. The
  record is polymorphic in the type of its six numbers: the kinematics computes with
  reals, the parser with \<open>number\<close>, which keeps NaN apart.
\<close>

record 'n PoseData =
  pose_x :: 'n
  pose_y :: 'n
  pose_z :: 'n
  pose_a :: 'n
  pose_b :: 'n
  pose_c :: 'n

definition getRad :: "real \<Rightarrow> real" where
  "getRad deg = deg * (pi / 180)"

definition poseToMatrix :: "real PoseData \<Rightarrow> Matrix4" where
  "poseToMatrix pose =
     (let m = identity4;
          translation = makeTranslation (pose_x pose) (pose_y pose) (pose_z pose);
          rotA = makeRotationZ (getRad (pose_a pose));
          rotB = makeRotationY (getRad (pose_b pose));
          rotC = makeRotationX (getRad (pose_c pose));
          rotation = multiply (multiply rotA rotB) rotC
      in multiply (multiply m translation) rotation)"

text \<open>\<open>calculateFlangeTarget\<close> returns the object \<open>{ position, matrix }\<close>.\<close>

record FlangeTarget =
  ft_position :: Vector3
  ft_matrix :: Matrix4

definition calculateFlangeTarget :: "real PoseData \<Rightarrow> real PoseData \<Rightarrow> real PoseData \<Rightarrow> FlangeTarget" where
  "calculateFlangeTarget point worldOffset toolOffset =
     (let matWorld = poseToMatrix worldOffset;
          matPoint = poseToMatrix point;
          matTool = poseToMatrix toolOffset;
          matTCP = multiply matWorld matPoint;
          matFlange = multiply matTCP (invert matTool);
          position = setFromMatrixPosition matFlange
      in \<lparr> ft_position = position, ft_matrix = matFlange \<rparr>)"

datatype Axis = AxisX | AxisY | AxisZ

definition makeRotation :: "Axis \<Rightarrow> real \<Rightarrow> Matrix4" where
  "makeRotation axis rad =
     (case axis of AxisX \<Rightarrow> makeRotationX rad
                 | AxisY \<Rightarrow> makeRotationY rad
                 | AxisZ \<Rightarrow> makeRotationZ rad)"

text \<open>
  \<open>applyTransforms(mat, trans, rot)\<close> multiplies \<open>mat\<close> by the translation, then by
  the rotation about the named axis.
\<close>

definition applyTransforms :: "Matrix4 \<Rightarrow> real \<times> real \<times> real \<Rightarrow> real \<times> Axis \<Rightarrow> Matrix4" where
  "applyTransforms mat tr rot =
     (case tr of (x, y, z) \<Rightarrow>
      case rot of (angleDeg, axis) \<Rightarrow>
        multiply (multiply mat (makeTranslation x y z)) (makeRotation axis (getRad angleDeg)))"

text \<open>\<open>forwardKinematicsChain\<close>, link by link as the source writes it.\<close>

definition forwardKinematicsChain :: "KinematicsService \<Rightarrow> real list \<Rightarrow> Matrix4 list" where
  "forwardKinematicsChain srv jointAnglesDeg =
     (let d = dh_d srv; a = dh_a srv; alpha = dh_alpha srv; jointOffsets = dh_jointOffsets srv;
          currentMat = identity4;
          jVars = 0 # jointAnglesDeg;
          m0 = applyTransforms
                 (applyTransforms currentMat (0, 0, d ! 0) (jVars ! 0 + jointOffsets ! 0, AxisZ))
                 (a ! 0, 0, 0) (alpha ! 0, AxisX);
          m1 = applyTransforms
                 (applyTransforms m0 (0, 0, d ! 1) (jVars ! 1 + jointOffsets ! 1, AxisZ))
                 (a ! 1, 0, 0) (alpha ! 1, AxisX);
          m1_adj = multiply m1 (makeRotationX (getRad 90));
          m2 = applyTransforms
                 (applyTransforms m1_adj (0, 0, d ! 2) (jVars ! 2 + jointOffsets ! 2, AxisZ))
                 (a ! 2, 0, 0) (alpha ! 2, AxisX);
          m3 = applyTransforms
                 (applyTransforms m2 (0, 0, d ! 3) (jVars ! 3 + jointOffsets ! 3, AxisZ))
                 (a ! 3, 0, 0) (alpha ! 3, AxisX);
          m3_adj = multiply (multiply m3 (makeRotationY (getRad 90))) (makeRotationZ (getRad (-90)));
          m4 = applyTransforms
                 (applyTransforms m3_adj (0, 0, d ! 4) (jVars ! 4 + jointOffsets ! 4, AxisX))
                 (a ! 4, 0, 0) (alpha ! 4, AxisX);
          m4_adj = multiply m4 (makeRotationX (getRad (-90)));
          m5 = applyTransforms
                 (applyTransforms m4_adj (0, 0, d ! 5) (jVars ! 5 + jointOffsets ! 5, AxisZ))
                 (a ! 5, 0, 0) (alpha ! 5, AxisX);
          m5_adj = multiply (multiply m5 (makeRotationX (getRad (-90)))) (makeRotationY (getRad 90));
          m6 = applyTransforms
                 (applyTransforms m5_adj (0, 0, d ! 6) (jVars ! 6 + jointOffsets ! 6, AxisZ))
                 (a ! 6, 0, 0) (alpha ! 6, AxisX);
          mTool = multiply (multiply m6 (makeTranslation 0 0 386.63)) (makeTranslation (-124) 0 0)
      in [m0, m1, m2, m3, m4, m5, m6, mTool])"

text \<open>\<open>getEndEffectorPose\<close> returns \<open>{ position, rotation, matrix }\<close>.\<close>

record EndEffectorPose =
  ee_position :: Vector3
  ee_rotation :: Euler
  ee_matrix :: Matrix4

definition getEndEffectorPose :: "KinematicsService \<Rightarrow> real list \<Rightarrow> EndEffectorPose" where
  "getEndEffectorPose srv jointAnglesDeg =
     (let chain = forwardKinematicsChain srv jointAnglesDeg;
          endMatrix = chain ! (length chain - 1)
      in case decompose endMatrix of (posn, quaternion, sc) \<Rightarrow>
           \<lparr> ee_position = posn, ee_rotation = eulerFromQuaternion quaternion, ee_matrix = endMatrix \<rparr>)"

subsection \<open>Inverse kinematics\<close>

definition maxIterations :: nat where "maxIterations = 200"
definition learningRate :: real where "learningRate = 0.5"
definition posThreshold :: real where "posThreshold = 0.1"
definition rotThreshold :: real where "rotThreshold = 0.001"

text \<open>
  JavaScript's \<open>%\<close> on numbers: the remainder has the sign of the dividend, the
  quotient is truncated towards zero.
\<close>

definition js_trunc :: "real \<Rightarrow> int" where
  "js_trunc x = (if x < 0 then \<lceil>x\<rceil> else \<lfloor>x\<rfloor>)"

definition js_rem :: "real \<Rightarrow> real \<Rightarrow> real" where
  "js_rem x n = x - n * of_int (js_trunc (x / n))"

text \<open>The function mapped over the angles after the loop.\<close>

definition normalizeAngle :: "real \<Rightarrow> real" where
  "normalizeAngle a =
     (let angle = js_rem a 360;
          angle1 = (if angle > 180 then angle - 360 else angle);
          angle2 = (if angle1 < -180 then angle1 + 360 else angle1)
      in angle2)"

text \<open>
  One pass of the loop body, in three parts. \<open>ikState\<close> is steps 1 and 2: the chain at
  the current angles, the current position, and the two error vectors. \<open>ikConverged\<close> is
  the convergence check that leaves the loop. \<open>ikUpdate\<close> is step 3, the six updates
  \<open>newAngles[j] += ...\<close>; the chain and the errors are those computed before the first
  update. The update is that of a seed with at least six angles, which is what every
  caller passes: on a shorter seed JavaScript's assignment extends the array, and the
  list update here does not.
\<close>

definition ikState ::
  "KinematicsService \<Rightarrow> Vector3 \<Rightarrow> Quaternion \<Rightarrow> real list \<Rightarrow> Matrix4 list \<times> Vector3 \<times> Vector3 \<times> Vector3" where
  "ikState srv targetPos targetQuat newAngles =
     (let chain = forwardKinematicsChain srv newAngles;
          endEffectorMatrix = chain ! (length chain - 1)
      in case decompose endEffectorMatrix of (currentPos, currentQuat, s) \<Rightarrow>
         (let errPos = subVectors targetPos currentPos;
              errQuat = multiplyQuaternions targetQuat (invertQuaternion currentQuat);
              errRot0 = Vector3 (qx errQuat) (qy errQuat) (qz errQuat);
              errRot1 = (if qw errQuat < 0 then multiplyScalar errRot0 (-1) else errRot0);
              errRot = multiplyScalar errRot1 2
          in (chain, currentPos, errPos, errRot)))"

definition ikConverged :: "KinematicsService \<Rightarrow> Vector3 \<Rightarrow> Quaternion \<Rightarrow> real list \<Rightarrow> bool" where
  "ikConverged srv targetPos targetQuat newAngles =
     (case ikState srv targetPos targetQuat newAngles of (chain, currentPos, errPos, errRot) \<Rightarrow>
        vlength errPos < posThreshold \<and> vlength errRot < rotThreshold)"

definition jointUpdate ::
  "Matrix4 list \<Rightarrow> Vector3 \<Rightarrow> Vector3 \<Rightarrow> Vector3 \<Rightarrow> nat \<Rightarrow> real list \<Rightarrow> real list" where
  "jointUpdate chain currentPos errPos errRot j newAngles =
     (let pivotIdx = j;
          pivotMatrix = chain ! pivotIdx;
          pivotPos = setFromMatrixPosition pivotMatrix;
          pivotRot = setFromRotationMatrix pivotMatrix;
          localAxis = (if j = 3 then Vector3 1 0 0 else Vector3 0 0 1);
          jointAxis = normalizeV (applyQuaternion localAxis pivotRot);
          p_e = subVectors currentPos pivotPos;
          J_v = crossVectors jointAxis p_e;
          J_w = jointAxis;
          contribution = dot J_v errPos + dot J_w errRot * 100
      in newAngles[j := newAngles ! j + contribution * learningRate * 0.00005])"

definition ikUpdate :: "KinematicsService \<Rightarrow> Vector3 \<Rightarrow> Quaternion \<Rightarrow> real list \<Rightarrow> real list" where
  "ikUpdate srv targetPos targetQuat newAngles =
     (case ikState srv targetPos targetQuat newAngles of (chain, currentPos, errPos, errRot) \<Rightarrow>
        fold (jointUpdate chain currentPos errPos errRot) [0..<6] newAngles)"

text \<open>
  The \<open>for\<close> loop. It returns the angles it leaves the loop with and the value of
  \<open>iter\<close> there, which is the number of update passes it has run.
\<close>

function ik_loop ::
  "KinematicsService \<Rightarrow> Vector3 \<Rightarrow> Quaternion \<Rightarrow> nat \<Rightarrow> real list \<Rightarrow> real list \<times> nat" where
  "ik_loop srv targetPos targetQuat iter newAngles =
     (if iter < maxIterations then
        (if ikConverged srv targetPos targetQuat newAngles then (newAngles, iter)
         else ik_loop srv targetPos targetQuat (iter + 1) (ikUpdate srv targetPos targetQuat newAngles))
      else (newAngles, iter))"
  by pat_completeness auto
termination
  by (relation "measure (\<lambda>(srv, targetPos, targetQuat, iter, newAngles). maxIterations - iter)") auto

declare ik_loop.simps [simp del]

text \<open>
  The loop as \<open>inverseKinematics\<close> starts it: on the decomposed target, from
  \<open>iter = 0\<close> and a copy of the seed.
\<close>

definition ik_run :: "KinematicsService \<Rightarrow> Matrix4 \<Rightarrow> real list \<Rightarrow> real list \<times> nat" where
  "ik_run srv targetMatrix currentAnglesDeg =
     (case decompose targetMatrix of (targetPos, targetQuat, s) \<Rightarrow>
        ik_loop srv targetPos targetQuat 0 currentAnglesDeg)"

definition inverseKinematics :: "KinematicsService \<Rightarrow> Matrix4 \<Rightarrow> real list \<Rightarrow> real list" where
  "inverseKinematics srv targetMatrix currentAnglesDeg =
     map normalizeAngle (fst (ik_run srv targetMatrix currentAnglesDeg))"

text \<open>The number of update passes a call of \<open>inverseKinematics\<close> runs.\<close>

definition ik_iterations :: "KinematicsService \<Rightarrow> Matrix4 \<Rightarrow> real list \<Rightarrow> nat" where
  "ik_iterations srv targetMatrix currentAnglesDeg = snd (ik_run srv targetMatrix currentAnglesDeg)"


text \<open>The target pose and the update pass of a call, named for the statements below.\<close>

definition ik_targetPos :: "Matrix4 \<Rightarrow> Vector3" where
  "ik_targetPos targetMatrix = fst (decompose targetMatrix)"

definition ik_targetQuat :: "Matrix4 \<Rightarrow> Quaternion" where
  "ik_targetQuat targetMatrix = fst (snd (decompose targetMatrix))"

text \<open>
  The return statement (\<open>newAngles.map(...)\<close>) on the numbers JavaScript holds. The
  loop above is the loop on finite numbers. On a target or seed that carries NaN, or on
  a target whose rotation block is singular, the array the loop leaves holds NaN or an
  infinity; \<open>jsnum\<close> has these values, and \<open>normalizeAngleJS\<close> is the mapped function
  on them: \<open>a % 360\<close> of NaN or of an infinity is NaN, and a comparison with NaN is
  false. On a finite angle it is \<open>normalizeAngle\<close>.
\<close>

datatype jsnum = JsFinite real | JsPosInfinity | JsNegInfinity | JsNaN

text \<open>\<open>a % n\<close> for a finite \<open>n\<close> other than 0.\<close>

definition jsRemainder :: "jsnum \<Rightarrow> real \<Rightarrow> jsnum" where
  "jsRemainder a n = (case a of JsFinite x \<Rightarrow> JsFinite (js_rem x n) | _ \<Rightarrow> JsNaN)"

text \<open>\<open>a > n\<close>, \<open>a < n\<close>, \<open>a - n\<close> and \<open>a + n\<close> for a finite \<open>n\<close>.\<close>

definition jsGreater :: "jsnum \<Rightarrow> real \<Rightarrow> bool" where
  "jsGreater a n =
     (case a of JsFinite x \<Rightarrow> x > n | JsPosInfinity \<Rightarrow> True | JsNegInfinity \<Rightarrow> False | JsNaN \<Rightarrow> False)"

definition jsLess :: "jsnum \<Rightarrow> real \<Rightarrow> bool" where
  "jsLess a n =
     (case a of JsFinite x \<Rightarrow> x < n | JsPosInfinity \<Rightarrow> False | JsNegInfinity \<Rightarrow> True | JsNaN \<Rightarrow> False)"

definition jsMinus :: "jsnum \<Rightarrow> real \<Rightarrow> jsnum" where
  "jsMinus a n = (case a of JsFinite x \<Rightarrow> JsFinite (x - n) | v \<Rightarrow> v)"

definition jsPlus :: "jsnum \<Rightarrow> real \<Rightarrow> jsnum" where
  "jsPlus a n = (case a of JsFinite x \<Rightarrow> JsFinite (x + n) | v \<Rightarrow> v)"

definition normalizeAngleJS :: "jsnum \<Rightarrow> jsnum" where
  "normalizeAngleJS a =
     (let angle = jsRemainder a 360;
          angle1 = (if jsGreater angle 180 then jsMinus angle 360 else angle);
          angle2 = (if jsLess angle1 (- 180) then jsPlus angle1 360 else angle1)
      in angle2)"

definition normalizeAngles :: "jsnum list \<Rightarrow> jsnum list" where
  "normalizeAngles newAngles = map normalizeAngleJS newAngles"

text \<open>
  The reference algorithm, written from the specification's description of the chain:
  a running transform that starts at the identity and goes through stages 0 to 6.
\<close>

definition translateLocal :: "Matrix4 \<Rightarrow> real \<Rightarrow> real \<Rightarrow> real \<Rightarrow> Matrix4" where
  "translateLocal m x y z = multiply m (makeTranslation x y z)"

definition rotateLocal :: "Matrix4 \<Rightarrow> real \<Rightarrow> Axis \<Rightarrow> Matrix4" where
  "rotateLocal m deg axis = multiply m (makeRotation axis (getRad deg))"

definition spec_commandedAngle :: "real list \<Rightarrow> nat \<Rightarrow> real" where
  "spec_commandedAngle jointAngles i = (if i = 0 then 0 else jointAngles ! (i - 1))"

definition spec_jointAxis :: "nat \<Rightarrow> Axis" where
  "spec_jointAxis i = (if i = 4 then AxisX else AxisZ)"

definition spec_stage :: "KinematicsService \<Rightarrow> real list \<Rightarrow> nat \<Rightarrow> Matrix4 \<Rightarrow> Matrix4" where
  "spec_stage srv jointAngles i running =
     rotateLocal
       (translateLocal
          (rotateLocal
             (translateLocal running 0 0 (dh_d srv ! i))
             (spec_commandedAngle jointAngles i + dh_jointOffsets srv ! i) (spec_jointAxis i))
          (dh_a srv ! i) 0 0)
       (dh_alpha srv ! i) AxisX"

definition spec_correction :: "nat \<Rightarrow> Matrix4 \<Rightarrow> Matrix4" where
  "spec_correction i m =
     (if i = 1 then rotateLocal m 90 AxisX
      else if i = 3 then rotateLocal (rotateLocal m 90 AxisY) (-90) AxisZ
      else if i = 4 then rotateLocal m (-90) AxisX
      else if i = 5 then rotateLocal (rotateLocal m (-90) AxisX) 90 AxisY
      else m)"

primrec spec_stages :: "KinematicsService \<Rightarrow> real list \<Rightarrow> nat list \<Rightarrow> Matrix4 \<Rightarrow> Matrix4 list" where
  "spec_stages srv jointAngles [] running = []"
| "spec_stages srv jointAngles (i # rest) running =
     (let frame = spec_stage srv jointAngles i running
      in frame # spec_stages srv jointAngles rest (spec_correction i frame))"

definition spec_toolOffset :: "Matrix4 \<Rightarrow> Matrix4" where
  "spec_toolOffset m = translateLocal (translateLocal m 0 0 386.63) (-124) 0 0"

definition spec_forwardKinematics :: "KinematicsService \<Rightarrow> real list \<Rightarrow> Matrix4 list" where
  "spec_forwardKinematics srv jointAngles =
     (let frames = spec_stages srv jointAngles [0..<7] identity4
      in frames @ [spec_toolOffset (frames ! 6)])"

definition wellFormedDH :: "KinematicsService \<Rightarrow> bool" where
  "wellFormedDH srv \<longleftrightarrow>
     length (dh_d srv) = 7 \<and> length (dh_a srv) = 7 \<and>
     length (dh_alpha srv) = 7 \<and> length (dh_jointOffsets srv) = 7"

subsection \<open>Path generators\<close>

text \<open>
  \<open>generateTrajectoryPoints(type)\<close> of the application component. It reads the current
  joint angles, and its result is the list it passes to \<open>setAngleQueue\<close>. The helper
  \<open>addPt\<close> solves one waypoint from the current seed, appends the solution and makes
  it the next seed; the model threads the pair \<open>(solutions, currentSeed)\<close>.
\<close>

datatype TrajectoryType = Line | SCurve | Spiral

definition addPt ::
  "KinematicsService \<Rightarrow> Quaternion \<Rightarrow> Vector3 \<Rightarrow> real list list \<times> real list \<Rightarrow> real list list \<times> real list" where
  "addPt srv startQuat pos st =
     (case st of (solutions, currentSeed) \<Rightarrow>
        (let mat = compose pos startQuat (Vector3 1 1 1);
             sol = inverseKinematics srv mat currentSeed
         in (solutions @ [sol], sol)))"

definition generateTrajectoryPoints :: "KinematicsService \<Rightarrow> real list \<Rightarrow> TrajectoryType \<Rightarrow> real list list" where
  "generateTrajectoryPoints srv jointAngles ty =
     (let startPose = getEndEffectorPose srv jointAngles;
          startPos = ee_position startPose;
          startQuat = quaternionFromEuler (ee_rotation startPose);
          steps = (60 :: nat);
          st0 = ([], jointAngles)
      in fst (case ty of
           Line \<Rightarrow>
             (let endPos = Vector3 (vx startPos + 500) (vy startPos) (vz startPos)
              in fold (\<lambda>i. addPt srv startQuat (lerpVectors startPos endPos (real i / real steps)))
                   [0..<steps + 1] st0)
         | SCurve \<Rightarrow>
             (let z = vz startPos; centerX = vx startPos; centerY = vy startPos
              in fold (\<lambda>i. let t = real i / 20;
                               x = centerX + sin t * 200;
                               y = centerY + real i * 10
                           in addPt srv startQuat (Vector3 x y z))
                   [0..<steps * 2 + 1] st0)
         | Spiral \<Rightarrow>
             (let centerX = 1200; centerY = 0; startZ = 800
              in fold (\<lambda>i. let angle = real i * 0.1;
                               radius = 200 + real i * 2;
                               x = centerX + cos angle * radius;
                               y = centerY + sin angle * radius;
                               z = startZ + real i * 5
                           in addPt srv startQuat (Vector3 x y z))
                   [0..<steps * 3 + 1] st0)))"

text \<open>The start pose and the waypoints of the line path, named for the statements below.\<close>

definition lineStartPos :: "KinematicsService \<Rightarrow> real list \<Rightarrow> Vector3" where
  "lineStartPos srv jointAngles = ee_position (getEndEffectorPose srv jointAngles)"

definition lineStartQuat :: "KinematicsService \<Rightarrow> real list \<Rightarrow> Quaternion" where
  "lineStartQuat srv jointAngles = quaternionFromEuler (ee_rotation (getEndEffectorPose srv jointAngles))"

definition lineEndPos :: "KinematicsService \<Rightarrow> real list \<Rightarrow> Vector3" where
  "lineEndPos srv jointAngles =
     Vector3 (vx (lineStartPos srv jointAngles) + 500) (vy (lineStartPos srv jointAngles))
             (vz (lineStartPos srv jointAngles))"

definition lineWaypoint :: "KinematicsService \<Rightarrow> real list \<Rightarrow> nat \<Rightarrow> Vector3" where
  "lineWaypoint srv jointAngles i =
     lerpVectors (lineStartPos srv jointAngles) (lineEndPos srv jointAngles) (real i / 60)"

subsection \<open>Playback\<close>

text \<open>
  \<open>TrajectoryPlayer\<close>: the callback it registers with \<open>useFrame\<close>, as a function of
  the frame's \<open>delta\<close> and of the state it reads (the queue and the current angles).
  It returns the new state and whether \<open>onFinished\<close> was called. On an empty queue the
  callback returns before \<open>setAngles\<close>.
\<close>

record PlaybackState =
  pb_queue :: "real list list"
  pb_angles :: "real list"

definition nextAngle :: "real list \<Rightarrow> real \<Rightarrow> real \<Rightarrow> nat \<Rightarrow> real" where
  "nextAngle target speed cur i =
     (let diff = target ! i - cur
      in if \<bar>diff\<bar> > 0.1 then cur + sgn diff * min \<bar>diff\<bar> speed else target ! i)"

definition playerFrame :: "real \<Rightarrow> PlaybackState \<Rightarrow> PlaybackState \<times> bool" where
  "playerFrame delta st =
     (if length (pb_queue st) = 0 then (st, False)
      else
        (let target = pb_queue st ! 0;
             speed = 120.0 * delta;
             indexed = zip (pb_angles st) [0..<length (pb_angles st)];
             reached = list_all (\<lambda>(cur, i). \<not> \<bar>target ! i - cur\<bar> > 0.1) indexed;
             nextAngles = map (\<lambda>(cur, i). nextAngle target speed cur i) indexed
         in if reached
            then (let queue' = tl (pb_queue st)
                  in (\<lparr> pb_queue = queue', pb_angles = nextAngles \<rparr>, length queue' = 0))
            else (\<lparr> pb_queue = pb_queue st, pb_angles = nextAngles \<rparr>, False)))"

section \<open>The parser service\<close>

text \<open>
  Text is a list of characters, read as code units below 256. The parser can produce
  NaN (\<open>parseFloat\<close> of a capture without digits), so its numbers are the type
  \<open>number\<close>: a real or NaN. \<open>parseKeyValue\<close> returns \<open>number | null\<close>, modelled as
  \<open>number option\<close>.
\<close>

datatype number = Num real | NaN

text \<open>The characters \<open>\s\<close> matches and \<open>trim\<close> strips.\<close>

definition isWhiteSpace :: "char \<Rightarrow> bool" where
  "isWhiteSpace c \<longleftrightarrow> c \<in> set [CHR 0x09, CHR 0x0A, CHR 0x0B, CHR 0x0C, CHR 0x0D, CHR '' '', CHR 0xA0]"

definition isDigit :: "char \<Rightarrow> bool" where
  "isDigit c \<longleftrightarrow> c \<in> set ''0123456789''"

text \<open>The character class \<open>[-\d.]\<close>.\<close>

definition isNumberChar :: "char \<Rightarrow> bool" where
  "isNumberChar c \<longleftrightarrow> c = CHR ''-'' \<or> isDigit c \<or> c = CHR ''.''"

definition digitValue :: "char \<Rightarrow> nat" where
  "digitValue c = of_char c - 48"

definition digitsValue :: "string \<Rightarrow> nat" where
  "digitsValue ds = fold (\<lambda>c acc. acc * 10 + digitValue c) ds 0"

text \<open>
  \<open>parseFloat\<close> on a capture of \<open>[-\d.]+\<close>: an optional minus sign, digits, an
  optional point and digits; the longest such prefix is the number, and a prefix with no
  digit is NaN.
\<close>

definition parseFloat :: "string \<Rightarrow> number" where
  "parseFloat s =
     (let negative = (case s of c # r \<Rightarrow> c = CHR ''-'' | [] \<Rightarrow> False);
          body = (if negative then tl s else s);
          intPart = takeWhile isDigit body;
          afterInt = dropWhile isDigit body;
          fracPart = (case afterInt of c # r \<Rightarrow> if c = CHR ''.'' then takeWhile isDigit r else []
                                     | [] \<Rightarrow> [])
      in if intPart = [] \<and> fracPart = [] then NaN
         else Num ((if negative then - 1 else 1) *
                   (real (digitsValue intPart) + real (digitsValue fracPart) / 10 ^ length fracPart)))"

text \<open>The flag \<open>i\<close> on a key that is a lower-case letter.\<close>

definition asciiUpper :: "char \<Rightarrow> char" where
  "asciiUpper c =
     (case map_of (zip ''abcdefghijklmnopqrstuvwxyz'' ''ABCDEFGHIJKLMNOPQRSTUVWXYZ'') c of
        Some u \<Rightarrow> u | None \<Rightarrow> c)"

definition keyMatches :: "char \<Rightarrow> char \<Rightarrow> bool" where
  "keyMatches key c \<longleftrightarrow> c = key \<or> c = asciiUpper key"

text \<open>
  The regular expression \<open>key\s*:=\s*([-\d.]+)\<close> tried at the head of a text: the
  capture group when it matches there.
\<close>

definition matchHere :: "char \<Rightarrow> string \<Rightarrow> string option" where
  "matchHere key s =
     (case s of [] \<Rightarrow> None
      | c # rest \<Rightarrow>
          if keyMatches key c then
            (case dropWhile isWhiteSpace rest of
               c1 # c2 # rest2 \<Rightarrow>
                 if c1 = CHR '':'' \<and> c2 = CHR ''='' then
                   (let cap = takeWhile isNumberChar (dropWhile isWhiteSpace rest2)
                    in if cap = [] then None else Some cap)
                 else None
             | _ \<Rightarrow> None)
          else None)"

text \<open>\<open>text.match(regex)\<close>: the leftmost position where the expression matches.\<close>

fun regexMatch :: "char \<Rightarrow> string \<Rightarrow> string option" where
  "regexMatch key [] = None"
| "regexMatch key (c # cs) =
     (case matchHere key (c # cs) of Some cap \<Rightarrow> Some cap | None \<Rightarrow> regexMatch key cs)"

definition parseKeyValue :: "string \<Rightarrow> char \<Rightarrow> number option" where
  "parseKeyValue txt key =
     (case regexMatch key txt of Some cap \<Rightarrow> Some (parseFloat cap) | None \<Rightarrow> None)"

text \<open>The operator \<open>??\<close>: the right operand replaces \<open>null\<close> only.\<close>

definition orElse :: "number option \<Rightarrow> number \<Rightarrow> number" where
  "orElse v dflt = (case v of None \<Rightarrow> dflt | Some n \<Rightarrow> n)"

definition parseLineToPose :: "string \<Rightarrow> number PoseData" where
  "parseLineToPose line =
     \<lparr> pose_x = orElse (parseKeyValue line CHR ''x'') (Num 0),
       pose_y = orElse (parseKeyValue line CHR ''y'') (Num 0),
       pose_z = orElse (parseKeyValue line CHR ''z'') (Num 0),
       pose_a = orElse (parseKeyValue line CHR ''a'') (Num 0),
       pose_b = orElse (parseKeyValue line CHR ''b'') (Num 0),
       pose_c = orElse (parseKeyValue line CHR ''c'') (Num 0) \<rparr>"

definition defaultPose :: "number PoseData" where
  "defaultPose = \<lparr> pose_x = Num 0, pose_y = Num 0, pose_z = Num 0,
                   pose_a = Num 0, pose_b = Num 0, pose_c = Num 0 \<rparr>"

record RobotGlobalConfig =
  cfg_world :: "number PoseData"
  cfg_tool :: "number PoseData"

text \<open>\<open>text.split('\n')\<close>: the empty text is one empty line.\<close>

fun splitLines :: "string \<Rightarrow> string list" where
  "splitLines [] = [[]]"
| "splitLines (c # cs) =
     (if c = CHR 0x0A then [] # splitLines cs
      else (case splitLines cs of l # ls \<Rightarrow> (c # l) # ls | [] \<Rightarrow> [[c]]))"

definition trim :: "string \<Rightarrow> string" where
  "trim s = rev (dropWhile isWhiteSpace (rev (dropWhile isWhiteSpace s)))"

fun startsWith :: "string \<Rightarrow> string \<Rightarrow> bool" where
  "startsWith s [] = True"
| "startsWith [] (p # ps) = False"
| "startsWith (c # cs) (p # ps) = (c = p \<and> startsWith cs ps)"

text \<open>\<open>String.includes\<close> (the name \<open>includes\<close> is reserved).\<close>

fun includesStr :: "string \<Rightarrow> string \<Rightarrow> bool" where
  "includesStr [] sub = (sub = [])"
| "includesStr (c # cs) sub = (startsWith (c # cs) sub \<or> includesStr cs sub)"

text \<open>The three line tests of the two parsers, named for the statements below.\<close>

definition isWorldLine :: "string \<Rightarrow> bool" where
  "isWorldLine line \<longleftrightarrow> startsWith (trim line) ''world1''"

definition isToolLine :: "string \<Rightarrow> bool" where
  "isToolLine line \<longleftrightarrow> startsWith (trim line) ''tool1''"

definition isWaypointLine :: "string \<Rightarrow> bool" where
  "isWaypointLine line \<longleftrightarrow> includesStr line ''CARTPOS'' \<and> includesStr line ''x :=''"

definition globalVarsLine :: "string \<Rightarrow> RobotGlobalConfig \<Rightarrow> RobotGlobalConfig" where
  "globalVarsLine line config =
     (if startsWith (trim line) ''world1'' then config\<lparr> cfg_world := parseLineToPose line \<rparr>
      else if startsWith (trim line) ''tool1'' then config\<lparr> cfg_tool := parseLineToPose line \<rparr>
      else config)"

definition parseGlobalVars :: "string \<Rightarrow> RobotGlobalConfig" where
  "parseGlobalVars txt =
     (let config = \<lparr> cfg_world = defaultPose, cfg_tool = defaultPose \<rparr>;
          lines = splitLines txt
      in fold globalVarsLine lines config)"

definition trajectoryLine :: "string \<Rightarrow> number PoseData list \<Rightarrow> number PoseData list" where
  "trajectoryLine line points =
     (if includesStr line ''CARTPOS'' \<and> includesStr line ''x :='' then points @ [parseLineToPose line]
      else points)"

definition parseTrajectory :: "string \<Rightarrow> number PoseData list" where
  "parseTrajectory txt =
     (let points = [];
          lines = splitLines txt
      in fold trajectoryLine lines points)"

text \<open>
  The determinant of the upper-left 3x3 block, as \<open>invert\<close> expands it for a matrix
  whose last row is \<open>0 0 0 1\<close>.
\<close>

definition det3 :: "real \<Rightarrow> real \<Rightarrow> real \<Rightarrow> real \<Rightarrow> real \<Rightarrow> real \<Rightarrow> real \<Rightarrow> real \<Rightarrow> real \<Rightarrow> real" where
  "det3 r11 r12 r13 r21 r22 r23 r31 r32 r33 =
     r11 * (r22 * r33 - r23 * r32) + r21 * (r13 * r32 - r12 * r33) + r31 * (r12 * r23 - r13 * r22)"

section \<open>Properties\<close>

lemma upt_0_7: "[0..<7] = [0, 1, 2, 3, 4, 5, 6]"
  by (simp add: upt_rec)

lemma length_forwardKinematicsChain: "length (forwardKinematicsChain srv js) = 8"
  by (simp add: forwardKinematicsChain_def Let_def)

text \<open>
  C1. For a 6-element joint-angle vector and 7-element DH arrays,
  \<open>forwardKinematicsChain\<close> returns exactly 8 frames, and they are the frames of the
  reference algorithm: stages 0 to 6 on a running transform that starts at the identity
  (translate along Z by \<open>d[i]\<close>, rotate by the commanded angle plus the joint offset about
  Z, or about X at stage 4, translate along X by \<open>a[i]\<close>, rotate by \<open>alpha[i]\<close> about
  X), each frame recorded before the fixed corrective rotations after stages 1, 3, 4 and
  5, and frame 7 is frame 6 moved by 386.63 along local Z, then by -124 along local X.
\<close>

theorem forwardKinematicsChain_reference:
  assumes "length jointAngles = 6" and "wellFormedDH srv"
  shows "length (forwardKinematicsChain srv jointAngles) = 8 \<and>
         forwardKinematicsChain srv jointAngles = spec_forwardKinematics srv jointAngles"
  by (simp add: forwardKinematicsChain_def spec_forwardKinematics_def upt_0_7 Let_def
      spec_stage_def spec_correction_def spec_toolOffset_def spec_commandedAngle_def
      spec_jointAxis_def applyTransforms_def translateLocal_def rotateLocal_def
      makeRotation_def)

theorem forwardKinematicsChain_reference_witness:
  "length [10, 20, 30, 40, 50, 60 :: real] = 6 \<and> wellFormedDH kinematics \<and>
   length (forwardKinematicsChain kinematics [10, 20, 30, 40, 50, 60]) = 8 \<and>
   forwardKinematicsChain kinematics [10, 20, 30, 40, 50, 60] =
     spec_forwardKinematics kinematics [10, 20, 30, 40, 50, 60]"
proof -
  have len: "length [10, 20, 30, 40, 50, 60 :: real] = 6" by simp
  have wf: "wellFormedDH kinematics" by (simp add: wellFormedDH_def kinematics_def)
  from forwardKinematicsChain_reference [OF len wf] len wf show ?thesis by blast
qed

subsection \<open>Matrix algebra\<close>

lemma multiply_assoc: "multiply (multiply a b) c = multiply a (multiply b c)"
  by (cases a; cases b; cases c) (simp add: algebra_simps)

lemma multiply_identity_left: "multiply identity4 m = m"
  by (cases m) (simp add: identity4_def)

lemma multiply_identity_right: "multiply m identity4 = m"
  by (cases m) (simp add: identity4_def)

lemma invert_affine:
  assumes "det3 r11 r12 r13 r21 r22 r23 r31 r32 r33 = 1"
  shows "invert (Matrix4 r11 r12 r13 x  r21 r22 r23 y  r31 r32 r33 z  0 0 0 1) =
     Matrix4 (r22 * r33 - r23 * r32) (r13 * r32 - r12 * r33) (r12 * r23 - r13 * r22)
               (x * r23 * r32 - r13 * y * r32 - x * r22 * r33 + r12 * y * r33 + r13 * r22 * z - r12 * r23 * z)
             (r23 * r31 - r21 * r33) (r11 * r33 - r13 * r31) (r13 * r21 - r11 * r23)
               (r13 * y * r31 - x * r23 * r31 + x * r21 * r33 - r11 * y * r33 - r13 * r21 * z + r11 * r23 * z)
             (r21 * r32 - r22 * r31) (r12 * r31 - r11 * r32) (r11 * r22 - r12 * r21)
               (x * r22 * r31 - r12 * y * r31 - x * r21 * r32 + r11 * y * r32 + r12 * r21 * z - r11 * r22 * z)
             0 0 0 1"
  using assms apply (simp add: Let_def det3_def)
  apply algebra
  done

lemma affine_inverse_right:
  assumes "det3 r11 r12 r13 r21 r22 r23 r31 r32 r33 = 1"
  shows "multiply (Matrix4 r11 r12 r13 x  r21 r22 r23 y  r31 r32 r33 z  0 0 0 1)
                  (invert (Matrix4 r11 r12 r13 x  r21 r22 r23 y  r31 r32 r33 z  0 0 0 1)) = identity4"
  apply (insert assms)
  apply (simp only: invert_affine[OF assms] identity4_def multiply.simps Matrix4.inject det3_def)
  apply (intro conjI)
  apply (algebra | (simp add: algebra_simps; fail))+
  done

lemma affine_inverse_left:
  assumes "det3 r11 r12 r13 r21 r22 r23 r31 r32 r33 = 1"
  shows "multiply (invert (Matrix4 r11 r12 r13 x  r21 r22 r23 y  r31 r32 r33 z  0 0 0 1))
           (Matrix4 r11 r12 r13 x  r21 r22 r23 y  r31 r32 r33 z  0 0 0 1) = identity4"
  apply (insert assms)
  apply (simp only: invert_affine[OF assms] identity4_def multiply.simps Matrix4.inject det3_def)
  apply (intro conjI)
  apply (algebra | (simp add: algebra_simps; fail))+
  done

lemma det3_euler:
  fixes sa ca sb cb sc cc :: real
  assumes "sa * sa + ca * ca = 1" and "sb * sb + cb * cb = 1" and "sc * sc + cc * cc = 1"
  shows "det3 (ca * cb) (ca * sb * sc - sa * cc) (sa * sc + ca * sb * cc)
              (sa * cb) (ca * cc + sa * sb * sc) (sa * sb * cc - ca * sc)
              (- sb) (cb * sc) (cb * cc) = 1"
proof -
  have "det3 (ca * cb) (ca * sb * sc - sa * cc) (sa * sc + ca * sb * cc)
              (sa * cb) (ca * cc + sa * sb * sc) (sa * sb * cc - ca * sc)
              (- sb) (cb * sc) (cb * cc)
        = (sa * sa + ca * ca) * (sb * sb + cb * cb) * (sc * sc + cc * cc)"
    by (simp add: det3_def algebra_simps)
  then show ?thesis by (simp add: assms)
qed

lemma sin_cos_unit: "sin (t::real) * sin t + cos t * cos t = 1"
  using sin_cos_squared_add [of t] by (simp add: power2_eq_square)

lemma poseToMatrix_explicit:
  "poseToMatrix p =
     Matrix4 (cos (getRad (pose_a p)) * cos (getRad (pose_b p)))
       (cos (getRad (pose_a p)) * sin (getRad (pose_b p)) * sin (getRad (pose_c p)) -
        sin (getRad (pose_a p)) * cos (getRad (pose_c p)))
       (sin (getRad (pose_a p)) * sin (getRad (pose_c p)) +
        cos (getRad (pose_a p)) * sin (getRad (pose_b p)) * cos (getRad (pose_c p)))
       (pose_x p)
       (sin (getRad (pose_a p)) * cos (getRad (pose_b p)))
       (cos (getRad (pose_a p)) * cos (getRad (pose_c p)) +
        sin (getRad (pose_a p)) * sin (getRad (pose_b p)) * sin (getRad (pose_c p)))
       (sin (getRad (pose_a p)) * sin (getRad (pose_b p)) * cos (getRad (pose_c p)) -
        cos (getRad (pose_a p)) * sin (getRad (pose_c p)))
       (pose_y p)
       (- sin (getRad (pose_b p)))
       (cos (getRad (pose_b p)) * sin (getRad (pose_c p)))
       (cos (getRad (pose_b p)) * cos (getRad (pose_c p)))
       (pose_z p)
       0 0 0 1"
  by (simp add: poseToMatrix_def Let_def identity4_def makeTranslation_def
      makeRotationX_def makeRotationY_def makeRotationZ_def)

lemma poseToMatrix_inverse:
  "multiply (invert (poseToMatrix p)) (poseToMatrix p) = identity4 \<and>
   multiply (poseToMatrix p) (invert (poseToMatrix p)) = identity4"
  unfolding poseToMatrix_explicit
  by (intro conjI affine_inverse_left affine_inverse_right det3_euler sin_cos_unit)

lemma poseToMatrix_product:
  "poseToMatrix p =
     multiply (makeTranslation (pose_x p) (pose_y p) (pose_z p))
       (multiply (makeRotationZ (getRad (pose_a p)))
          (multiply (makeRotationY (getRad (pose_b p))) (makeRotationX (getRad (pose_c p)))))"
  by (simp add: poseToMatrix_def Let_def multiply_identity_left multiply_assoc)

text \<open>
  C6. \<open>calculateFlangeTarget(point, world, tool)\<close> returns the matrix
  \<open>M(world) \<cdot> M(point) \<cdot> M(tool)\<^sup>-\<^sup>1\<close> and its translation column, where
  \<open>M(p) = Translate(x, y, z) \<cdot> Rz(a) \<cdot> Ry(b) \<cdot> Rx(c)\<close> and the inverse is the
  two-sided matrix inverse (rotation included), not a negated translation.
\<close>

theorem calculateFlangeTarget_world_point_tool_inverse:
  "ft_matrix (calculateFlangeTarget point worldOffset toolOffset) =
     multiply (multiply (poseToMatrix worldOffset) (poseToMatrix point))
       (invert (poseToMatrix toolOffset)) \<and>
   ft_position (calculateFlangeTarget point worldOffset toolOffset) =
     setFromMatrixPosition (ft_matrix (calculateFlangeTarget point worldOffset toolOffset)) \<and>
   multiply (invert (poseToMatrix toolOffset)) (poseToMatrix toolOffset) = identity4 \<and>
   multiply (poseToMatrix toolOffset) (invert (poseToMatrix toolOffset)) = identity4 \<and>
   poseToMatrix point =
     multiply (makeTranslation (pose_x point) (pose_y point) (pose_z point))
       (multiply (makeRotationZ (getRad (pose_a point)))
          (multiply (makeRotationY (getRad (pose_b point))) (makeRotationX (getRad (pose_c point)))))"
proof -
  have inv: "multiply (invert (poseToMatrix toolOffset)) (poseToMatrix toolOffset) = identity4 \<and>
      multiply (poseToMatrix toolOffset) (invert (poseToMatrix toolOffset)) = identity4"
    by (rule poseToMatrix_inverse)
  have m: "ft_matrix (calculateFlangeTarget point worldOffset toolOffset) =
     multiply (multiply (poseToMatrix worldOffset) (poseToMatrix point))
       (invert (poseToMatrix toolOffset))"
    by (simp add: calculateFlangeTarget_def Let_def)
  have pos: "ft_position (calculateFlangeTarget point worldOffset toolOffset) =
     setFromMatrixPosition (ft_matrix (calculateFlangeTarget point worldOffset toolOffset))"
    by (simp add: calculateFlangeTarget_def Let_def)
  from inv m pos poseToMatrix_product [of point] show ?thesis by blast
qed

subsection \<open>Consistency of the library model\<close>

text \<open>
  Three checks that the library functions above fit together: \<open>determinant\<close> is the
  determinant \<open>invert\<close> divides by and \<open>invert\<close> gives a right inverse,
  \<open>applyQuaternion\<close> is the rotation block of \<open>compose\<close> applied to the vector, and
  the quaternion of an Euler triple composes to \<open>Rx \<cdot> Ry \<cdot> Rz\<close>.
\<close>

lemma determinant_cofactors:
  "determinant (Matrix4 n11 n12 n13 n14 n21 n22 n23 n24 n31 n32 n33 n34 n41 n42 n43 n44) =
     n11 * (n23 * n34 * n42 - n24 * n33 * n42 + n24 * n32 * n43 - n22 * n34 * n43 - n23 * n32 * n44 + n22 * n33 * n44) +
     n21 * (n14 * n33 * n42 - n13 * n34 * n42 - n14 * n32 * n43 + n12 * n34 * n43 + n13 * n32 * n44 - n12 * n33 * n44) +
     n31 * (n13 * n24 * n42 - n14 * n23 * n42 + n14 * n22 * n43 - n12 * n24 * n43 - n13 * n22 * n44 + n12 * n23 * n44) +
     n41 * (n14 * n23 * n32 - n13 * n24 * n32 - n14 * n22 * n33 + n12 * n24 * n33 + n13 * n22 * n34 - n12 * n23 * n34)"
  by (simp add: algebra_simps)

lemma invert_unit_determinant:
  assumes "determinant (Matrix4 n11 n12 n13 n14 n21 n22 n23 n24 n31 n32 n33 n34 n41 n42 n43 n44) = 1"
  shows "multiply (Matrix4 n11 n12 n13 n14 n21 n22 n23 n24 n31 n32 n33 n34 n41 n42 n43 n44)
     (invert (Matrix4 n11 n12 n13 n14 n21 n22 n23 n24 n31 n32 n33 n34 n41 n42 n43 n44)) = identity4"
proof -
  have d: "n11 * (n23 * n34 * n42 - n24 * n33 * n42 + n24 * n32 * n43 - n22 * n34 * n43 - n23 * n32 * n44 + n22 * n33 * n44) +
     n21 * (n14 * n33 * n42 - n13 * n34 * n42 - n14 * n32 * n43 + n12 * n34 * n43 + n13 * n32 * n44 - n12 * n33 * n44) +
     n31 * (n13 * n24 * n42 - n14 * n23 * n42 + n14 * n22 * n43 - n12 * n24 * n43 - n13 * n22 * n44 + n12 * n23 * n44) +
     n41 * (n14 * n23 * n32 - n13 * n24 * n32 - n14 * n22 * n33 + n12 * n24 * n33 + n13 * n22 * n34 - n12 * n23 * n34) = 1"
    using assms by (simp only: determinant_cofactors)
  show ?thesis
    apply (simp only: invert.simps Let_def d)
    apply (simp only: multiply.simps identity4_def Matrix4.inject one_neq_zero if_False div_by_1 mult_1_right)
    apply (insert d)
    apply (intro conjI)
    apply (algebra | (simp add: algebra_simps; fail))+
    done
qed

lemma applyQuaternion_compose:
  "applyQuaternion (Vector3 x y z) q =
     (case compose (Vector3 0 0 0) q (Vector3 1 1 1) of
        Matrix4 r11 r12 r13 r14 r21 r22 r23 r24 r31 r32 r33 r34 r41 r42 r43 r44 \<Rightarrow>
          Vector3 (r11 * x + r12 * y + r13 * z) (r21 * x + r22 * y + r23 * z) (r31 * x + r32 * y + r33 * z))"
  by (cases q) (simp add: applyQuaternion_def compose_def Let_def algebra_simps)

lemma euler_quaternion_poly:
  fixes s1 c1 s2 c2 s3 c3 :: real
  assumes "s1 * s1 + c1 * c1 = 1" and "s2 * s2 + c2 * c2 = 1" and "s3 * s3 + c3 * c3 = 1"
  shows "compose (Vector3 0 0 0)
           (Quaternion (s1 * c2 * c3 + c1 * s2 * s3) (c1 * s2 * c3 - s1 * c2 * s3)
                       (c1 * c2 * s3 + s1 * s2 * c3) (c1 * c2 * c3 - s1 * s2 * s3)) (Vector3 1 1 1) =
         multiply (multiply
           (Matrix4 1 0 0 0  0 (c1 * c1 - s1 * s1) (- (2 * s1 * c1)) 0  0 (2 * s1 * c1) (c1 * c1 - s1 * s1) 0  0 0 0 1)
           (Matrix4 (c2 * c2 - s2 * s2) 0 (2 * s2 * c2) 0  0 1 0 0  (- (2 * s2 * c2)) 0 (c2 * c2 - s2 * s2) 0  0 0 0 1))
           (Matrix4 (c3 * c3 - s3 * s3) (- (2 * s3 * c3)) 0 0  (2 * s3 * c3) (c3 * c3 - s3 * s3) 0 0  0 0 1 0  0 0 0 1)"
  apply (simp only: compose_def Let_def multiply.simps Matrix4.inject Quaternion.sel Vector3.sel)
  apply (insert assms)
  apply (intro conjI)
  apply (algebra | (simp add: algebra_simps; fail))+
  done

lemma sin_half: "sin (t::real) = 2 * sin (t / 2) * cos (t / 2)"
  using sin_double [of "t / 2"] by simp

lemma cos_half: "cos (t::real) = cos (t / 2) * cos (t / 2) - sin (t / 2) * sin (t / 2)"
  using cos_double [of "t / 2"] by (simp add: power2_eq_square)

lemma compose_quaternionFromEuler:
  "compose (Vector3 0 0 0) (quaternionFromEuler (Euler x y z)) (Vector3 1 1 1) =
     multiply (multiply (makeRotationX x) (makeRotationY y)) (makeRotationZ z)"
proof -
  have "multiply (multiply (makeRotationX x) (makeRotationY y)) (makeRotationZ z) =
      multiply (multiply
           (Matrix4 1 0 0 0
              0 (cos (x / 2) * cos (x / 2) - sin (x / 2) * sin (x / 2)) (- (2 * sin (x / 2) * cos (x / 2))) 0
              0 (2 * sin (x / 2) * cos (x / 2)) (cos (x / 2) * cos (x / 2) - sin (x / 2) * sin (x / 2)) 0
              0 0 0 1)
           (Matrix4 (cos (y / 2) * cos (y / 2) - sin (y / 2) * sin (y / 2)) 0 (2 * sin (y / 2) * cos (y / 2)) 0
              0 1 0 0
              (- (2 * sin (y / 2) * cos (y / 2))) 0 (cos (y / 2) * cos (y / 2) - sin (y / 2) * sin (y / 2)) 0
              0 0 0 1))
           (Matrix4 (cos (z / 2) * cos (z / 2) - sin (z / 2) * sin (z / 2)) (- (2 * sin (z / 2) * cos (z / 2))) 0 0
              (2 * sin (z / 2) * cos (z / 2)) (cos (z / 2) * cos (z / 2) - sin (z / 2) * sin (z / 2)) 0 0
              0 0 1 0
              0 0 0 1)"
    unfolding makeRotationX_def makeRotationY_def makeRotationZ_def
    using sin_half [of x] cos_half [of x] sin_half [of y] cos_half [of y] sin_half [of z] cos_half [of z]
    by (simp only:)
  also have "\<dots> = compose (Vector3 0 0 0) (quaternionFromEuler (Euler x y z)) (Vector3 1 1 1)"
    unfolding quaternionFromEuler_def Let_def Euler.sel
    by (rule euler_quaternion_poly [symmetric]) (rule sin_cos_unit)+
  finally show ?thesis by (rule sym)
qed

subsection \<open>Inverse kinematics\<close>

lemma vlength_zero: "vlength (Vector3 0 0 0) = 0"
  by (simp add: vlength_def)

lemma subVectors_self: "subVectors v v = Vector3 0 0 0"
  by (simp add: subVectors_def)

lemma quaternion_self_error:
  "multiplyQuaternions q (invertQuaternion q) =
     Quaternion 0 0 0 (qw q * qw q + qx q * qx q + qy q * qy q + qz q * qz q)"
  by (simp add: multiplyQuaternions_def invertQuaternion_def algebra_simps)

lemma ikConverged_at_own_pose:
  assumes "decompose (forwardKinematicsChain srv js ! (length (forwardKinematicsChain srv js) - 1)) = (tp, tq, s)"
  shows "ikConverged srv tp tq js"
  using assms
  by (simp add: ikConverged_def ikState_def Let_def subVectors_self quaternion_self_error
      multiplyScalar_def vlength_def posThreshold_def rotThreshold_def)

lemma ik_loop_converged:
  "ikConverged srv tp tq js \<Longrightarrow> ik_loop srv tp tq 0 js = (js, 0)"
  by (subst ik_loop.simps) (simp add: maxIterations_def)

lemma length_jointUpdate: "length (jointUpdate chain cp ep er j xs) = length xs"
  by (simp add: jointUpdate_def Let_def)

lemma length_fold_jointUpdate: "length (fold (jointUpdate chain cp ep er) js xs) = length xs"
  by (induction js arbitrary: xs) (simp_all add: length_jointUpdate)

lemma length_ikUpdate: "length (ikUpdate srv tp tq xs) = length xs"
  by (simp add: ikUpdate_def length_fold_jointUpdate split: prod.splits)

lemma ik_loop_iterate:
  "iter \<le> maxIterations \<Longrightarrow>
   \<exists>k. iter \<le> k \<and> k \<le> maxIterations \<and>
       ik_loop srv tp tq iter xs = ((ikUpdate srv tp tq ^^ (k - iter)) xs, k) \<and>
       (k = maxIterations \<or> ikConverged srv tp tq ((ikUpdate srv tp tq ^^ (k - iter)) xs))"
proof (induction srv tp tq iter xs rule: ik_loop.induct)
  case (1 srv tp tq iter xs)
  show ?case
  proof (cases "iter < maxIterations")
    case False
    with "1.prems" have eq: "iter = maxIterations" by simp
    have "ik_loop srv tp tq iter xs = (xs, iter)"
      using False by (subst ik_loop.simps) simp
    with eq show ?thesis by (intro exI[of _ iter]) simp
  next
    case lt: True
    show ?thesis
    proof (cases "ikConverged srv tp tq xs")
      case True
      have "ik_loop srv tp tq iter xs = (xs, iter)"
        using lt True by (subst ik_loop.simps) simp
      with lt True show ?thesis by (intro exI[of _ iter]) simp
    next
      case False
      from lt have "iter + 1 \<le> maxIterations" by simp
      from "1.IH"[OF lt False this] obtain k where k: "iter + 1 \<le> k" "k \<le> maxIterations"
        "ik_loop srv tp tq (iter + 1) (ikUpdate srv tp tq xs) =
           ((ikUpdate srv tp tq ^^ (k - (iter + 1))) (ikUpdate srv tp tq xs), k)"
        "k = maxIterations \<or>
           ikConverged srv tp tq ((ikUpdate srv tp tq ^^ (k - (iter + 1))) (ikUpdate srv tp tq xs))"
        by blast
      have step: "(ikUpdate srv tp tq ^^ (k - (iter + 1))) (ikUpdate srv tp tq xs) =
            (ikUpdate srv tp tq ^^ (k - iter)) xs"
      proof -
        from k(1) have "k - iter = Suc (k - (iter + 1))" by simp
        then show ?thesis by (simp add: funpow_swap1)
      qed
      have "ik_loop srv tp tq iter xs = ik_loop srv tp tq (iter + 1) (ikUpdate srv tp tq xs)"
        using lt False by (subst ik_loop.simps) simp
      with k step show ?thesis by (intro exI[of _ k]) auto
    qed
  qed
qed

lemma js_rem_360_bounds: "- 360 < js_rem a 360 \<and> js_rem a 360 < 360"
proof (cases "a < 0")
  case True
  have "(of_int \<lceil>a / 360\<rceil> - 1) * 360 < a" by (rule ceiling_divide_lower) simp
  moreover have "a \<le> of_int \<lceil>a / 360\<rceil> * 360" by (rule ceiling_divide_upper) simp
  ultimately show ?thesis using True by (simp add: js_rem_def js_trunc_def algebra_simps)
next
  case False
  have "of_int \<lfloor>a / 360\<rfloor> * 360 \<le> a" by (rule floor_divide_lower) simp
  moreover have "a < (of_int \<lfloor>a / 360\<rfloor> + 1) * 360" by (rule floor_divide_upper) simp
  ultimately show ?thesis using False by (simp add: js_rem_def js_trunc_def algebra_simps)
qed

lemma normalizeAngle_range: "- 180 \<le> normalizeAngle a \<and> normalizeAngle a \<le> 180"
  using js_rem_360_bounds [of a] by (auto simp: normalizeAngle_def Let_def)






lemma ik_run_at_own_pose:
  "ik_run srv (last (forwardKinematicsChain srv js)) js = (js, 0)"
proof -
  have ne: "forwardKinematicsChain srv js \<noteq> []"
    using length_forwardKinematicsChain [of srv js] by auto
  obtain tp tq s where d: "decompose (last (forwardKinematicsChain srv js)) = (tp, tq, s)"
    by (cases "decompose (last (forwardKinematicsChain srv js))") auto
  then have "decompose (forwardKinematicsChain srv js ! (length (forwardKinematicsChain srv js) - 1)) = (tp, tq, s)"
    using ne by (simp add: last_conv_nth)
  then have "ikConverged srv tp tq js" by (rule ikConverged_at_own_pose)
  then show ?thesis by (simp add: ik_run_def d ik_loop_converged)
qed

lemma inverseKinematics_at_own_pose:
  "inverseKinematics srv (last (forwardKinematicsChain srv js)) js = map normalizeAngle js"
  by (simp add: inverseKinematics_def ik_run_at_own_pose)

lemma ik_run_iterate:
  "\<exists>k. k \<le> maxIterations \<and>
       ik_run srv T seed = ((ikUpdate srv (ik_targetPos T) (ik_targetQuat T) ^^ k) seed, k) \<and>
       (k = maxIterations \<or>
        ikConverged srv (ik_targetPos T) (ik_targetQuat T)
          ((ikUpdate srv (ik_targetPos T) (ik_targetQuat T) ^^ k) seed))"
proof -
  obtain tp tq s where d: "decompose T = (tp, tq, s)"
    by (cases "decompose T") auto
  have "0 \<le> maxIterations" by simp
  from ik_loop_iterate [OF this, of srv tp tq seed]
  show ?thesis by (simp add: ik_run_def d ik_targetPos_def ik_targetQuat_def)
qed

lemma length_funpow_ikUpdate: "length ((ikUpdate srv tp tq ^^ k) xs) = length xs"
  by (induction k) (simp_all add: length_ikUpdate)

lemma length_inverseKinematics: "length (inverseKinematics srv T seed) = length seed"
proof -
  from ik_run_iterate [of srv T seed] obtain k where
    "ik_run srv T seed = ((ikUpdate srv (ik_targetPos T) (ik_targetQuat T) ^^ k) seed, k)"
    by blast
  then show ?thesis by (simp add: inverseKinematics_def length_funpow_ikUpdate)
qed




lemma normalizeAngle_minus_180: "normalizeAngle (- 180) = - 180"
proof -
  have "\<lceil>- (1 / 2) :: real\<rceil> = 0" by (simp add: ceiling_eq_iff)
  then show ?thesis by (simp add: normalizeAngle_def js_rem_def js_trunc_def Let_def)
qed

text \<open>
  C3, as stated, fails: seeded with \<open>[-180, 0, 0, 0, 0, 0]\<close> on that vector's own end
  frame, the solver returns \<open>-180\<close> for the first joint, outside \<open>(-180, 180]\<close>.
\<close>

theorem inverseKinematics_returns_minus_180:
  "inverseKinematics kinematics (last (forwardKinematicsChain kinematics [- 180, 0, 0, 0, 0, 0]))
     [- 180, 0, 0, 0, 0, 0] ! 0 = - 180 \<and>
   \<not> (- 180 < inverseKinematics kinematics
                 (last (forwardKinematicsChain kinematics [- 180, 0, 0, 0, 0, 0]))
                 [- 180, 0, 0, 0, 0, 0] ! 0)"
  by (simp add: inverseKinematics_at_own_pose normalizeAngle_minus_180)

lemma normalizeAngleJS_finite: "normalizeAngleJS (JsFinite x) = JsFinite (normalizeAngle x)"
  by (simp add: normalizeAngleJS_def normalizeAngle_def jsRemainder_def jsGreater_def jsLess_def
      jsMinus_def jsPlus_def Let_def)

lemma normalizeAngleJS_not_finite:
  "normalizeAngleJS JsNaN = JsNaN \<and> normalizeAngleJS JsPosInfinity = JsNaN \<and>
   normalizeAngleJS JsNegInfinity = JsNaN"
  by (simp add: normalizeAngleJS_def jsRemainder_def jsGreater_def jsLess_def Let_def)

lemma normalizeAngleJS_range:
  "normalizeAngleJS v = JsNaN \<or>
   (\<exists>r. normalizeAngleJS v = JsFinite r \<and> - 180 \<le> r \<and> r \<le> 180)"
  using normalizeAngleJS_not_finite
  by (cases v) (simp_all add: normalizeAngleJS_finite normalizeAngle_range)

lemma normalizeAngleJS_NaN_iff:
  "normalizeAngleJS v = JsNaN \<longleftrightarrow> (\<forall>x. v \<noteq> JsFinite x)"
  using normalizeAngleJS_not_finite
  by (cases v) (simp_all add: normalizeAngleJS_finite)

lemma inverseKinematics_as_normalizeAngles:
  "map JsFinite (inverseKinematics srv T seed) =
     normalizeAngles (map JsFinite (fst (ik_run srv T seed)))"
  by (simp add: inverseKinematics_def normalizeAngles_def normalizeAngleJS_finite)

lemma js_rem_nonneg: "0 \<le> a \<Longrightarrow> 0 \<le> js_rem a 360"
proof -
  assume "0 \<le> a"
  have "of_int \<lfloor>a / 360\<rfloor> * 360 \<le> a" by (rule floor_divide_lower) simp
  with \<open>0 \<le> a\<close> show ?thesis by (simp add: js_rem_def js_trunc_def algebra_simps)
qed

lemma js_rem_negative: "a < 0 \<Longrightarrow> js_rem a 360 = a - 360 * of_int \<lceil>a / 360\<rceil>"
  by (simp add: js_rem_def js_trunc_def)

lemma normalizeAngle_eq_minus_180:
  "normalizeAngle a = - 180 \<longleftrightarrow> (\<exists>k::nat. a = - 180 - 360 * real k)"
proof
  assume h: "normalizeAngle a = - 180"
  define r where "r = js_rem a 360"
  have b: "- 360 < r \<and> r < 360" unfolding r_def by (rule js_rem_360_bounds)
  have n: "normalizeAngle a =
      (if (if r > 180 then r - 360 else r) < - 180 then (if r > 180 then r - 360 else r) + 360
       else (if r > 180 then r - 360 else r))"
    by (simp only: normalizeAngle_def Let_def r_def)
  from h b have r: "r = - 180" unfolding n by (simp split: if_splits)
  have neg: "a < 0"
  proof (rule ccontr)
    assume "\<not> a < 0"
    then have "0 \<le> r" unfolding r_def by (simp add: js_rem_nonneg)
    with r show False by simp
  qed
  define c where "c = \<lceil>a / 360\<rceil>"
  have "r = a - 360 * of_int c" unfolding r_def c_def using neg by (rule js_rem_negative)
  with r have e: "a = - 180 + 360 * of_int c" by linarith
  have "c \<le> 0"
  proof -
    from neg have "a / 360 \<le> 0" by simp
    then show ?thesis unfolding c_def by (simp add: ceiling_le_iff)
  qed
  then have "real_of_int c = - real (nat (- c))" by simp
  with e have "a = - 180 - 360 * real (nat (- c))" by linarith
  then show "\<exists>k::nat. a = - 180 - 360 * real k" by blast
next
  assume "\<exists>k::nat. a = - 180 - 360 * real k"
  then obtain k :: nat where a: "a = - 180 - 360 * real k" by blast
  have k0: "0 \<le> real k" by simp
  with a have neg: "a < 0" by linarith
  from a have q: "a / 360 = - (1 / 2) - real k" by simp
  have c: "\<lceil>a / 360\<rceil> = - int k"
    unfolding q by (simp add: ceiling_eq_iff)
  have "js_rem a 360 = a - 360 * of_int \<lceil>a / 360\<rceil>" using neg by (rule js_rem_negative)
  also have "\<dots> = a + 360 * real k" unfolding c by simp
  also have "\<dots> = - 180" using a by linarith
  finally have "js_rem a 360 = - 180" .
  then show "normalizeAngle a = - 180" by (simp add: normalizeAngle_def Let_def)
qed

text \<open>
  C3, amended. For every target matrix and every seed, every entry of the vector
  \<open>inverseKinematics\<close> returns is NaN or lies in the closed interval \<open>[-180, 180]\<close>.
  The statement is about the return statement on whatever array \<open>newAngles\<close> the loop
  leaves: an entry is NaN exactly where the loop left NaN or an infinity (as it does in
  all six places on a target that carries NaN), and a finite angle \<open>x\<close> is wrapped to
  \<open>normalizeAngle x\<close> in \<open>[-180, 180]\<close>. Where the loop's numbers are finite the
  returned vector is that of \<open>inverseKinematics\<close> above. The wraparound yields \<open>-180\<close>
  exactly for the angles \<open>-180 - 360 \<cdot> k\<close>, \<open>k = 0, 1, 2, ...\<close>.
\<close>

theorem inverseKinematics_range:
  "(\<forall>j < length newAngles.
      normalizeAngles newAngles ! j = JsNaN \<or>
      (\<exists>r. normalizeAngles newAngles ! j = JsFinite r \<and> - 180 \<le> r \<and> r \<le> 180)) \<and>
   (\<forall>j < length newAngles.
      normalizeAngles newAngles ! j = JsNaN \<longleftrightarrow> (\<forall>x. newAngles ! j \<noteq> JsFinite x)) \<and>
   (\<forall>j < length newAngles. \<forall>x. newAngles ! j = JsFinite x \<longrightarrow>
      normalizeAngles newAngles ! j = JsFinite (normalizeAngle x) \<and>
      - 180 \<le> normalizeAngle x \<and> normalizeAngle x \<le> 180) \<and>
   length (normalizeAngles newAngles) = length newAngles \<and>
   normalizeAngles [JsNaN, JsNaN, JsNaN, JsNaN, JsNaN, JsNaN] =
     [JsNaN, JsNaN, JsNaN, JsNaN, JsNaN, JsNaN] \<and>
   map JsFinite (inverseKinematics srv T seed) =
     normalizeAngles (map JsFinite (fst (ik_run srv T seed))) \<and>
   (normalizeAngle a = - 180 \<longleftrightarrow> (\<exists>k::nat. a = - 180 - 360 * real k))"
proof -
  have p1: "\<forall>j < length newAngles.
      normalizeAngles newAngles ! j = JsNaN \<or>
      (\<exists>r. normalizeAngles newAngles ! j = JsFinite r \<and> - 180 \<le> r \<and> r \<le> 180)"
    by (simp add: normalizeAngles_def normalizeAngleJS_range)
  have p2: "\<forall>j < length newAngles.
      normalizeAngles newAngles ! j = JsNaN \<longleftrightarrow> (\<forall>x. newAngles ! j \<noteq> JsFinite x)"
    by (simp add: normalizeAngles_def normalizeAngleJS_NaN_iff)
  have p3: "\<forall>j < length newAngles. \<forall>x. newAngles ! j = JsFinite x \<longrightarrow>
      normalizeAngles newAngles ! j = JsFinite (normalizeAngle x) \<and>
      - 180 \<le> normalizeAngle x \<and> normalizeAngle x \<le> 180"
    by (simp add: normalizeAngles_def normalizeAngleJS_finite normalizeAngle_range)
  have p4: "length (normalizeAngles newAngles) = length newAngles"
    by (simp add: normalizeAngles_def)
  have p5: "normalizeAngles [JsNaN, JsNaN, JsNaN, JsNaN, JsNaN, JsNaN] =
     [JsNaN, JsNaN, JsNaN, JsNaN, JsNaN, JsNaN]"
    by (simp add: normalizeAngles_def normalizeAngleJS_not_finite)
  have p6: "map JsFinite (inverseKinematics srv T seed) =
     normalizeAngles (map JsFinite (fst (ik_run srv T seed)))"
    by (rule inverseKinematics_as_normalizeAngles)
  have p7: "normalizeAngle a = - 180 \<longleftrightarrow> (\<exists>k::nat. a = - 180 - 360 * real k)"
    by (rule normalizeAngle_eq_minus_180)
  show ?thesis by (intro conjI p1 p2 p3 p4 p5 p6 p7)
qed

theorem inverseKinematics_range_witness:
  "(normalizeAngles [JsFinite (- 540), JsNaN, JsPosInfinity] ! 0 = JsNaN \<or>
    (\<exists>r. normalizeAngles [JsFinite (- 540), JsNaN, JsPosInfinity] ! 0 = JsFinite r \<and>
         - 180 \<le> r \<and> r \<le> 180)) \<and>
   normalizeAngles [JsFinite (- 540), JsNaN, JsPosInfinity] ! 0 = JsFinite (normalizeAngle (- 540)) \<and>
   normalizeAngles [JsFinite (- 540), JsNaN, JsPosInfinity] ! 1 = JsNaN \<and>
   normalizeAngles [JsFinite (- 540), JsNaN, JsPosInfinity] ! 2 = JsNaN"
proof -
  let ?xs = "[JsFinite (- 540), JsNaN, JsPosInfinity]"
  note t = inverseKinematics_range [of ?xs]
  from t have "\<forall>j < length ?xs.
      normalizeAngles ?xs ! j = JsNaN \<or>
      (\<exists>r. normalizeAngles ?xs ! j = JsFinite r \<and> - 180 \<le> r \<and> r \<le> 180)"
    by blast
  then have a: "normalizeAngles ?xs ! 0 = JsNaN \<or>
      (\<exists>r. normalizeAngles ?xs ! 0 = JsFinite r \<and> - 180 \<le> r \<and> r \<le> 180)"
    by simp
  from t have n: "\<forall>j < length ?xs.
      normalizeAngles ?xs ! j = JsNaN \<longleftrightarrow> (\<forall>x. ?xs ! j \<noteq> JsFinite x)"
    by blast
  from n have "(1::nat) < length ?xs \<longrightarrow>
      (normalizeAngles ?xs ! 1 = JsNaN \<longleftrightarrow> (\<forall>x. ?xs ! 1 \<noteq> JsFinite x))"
    by (rule spec)
  then have c: "normalizeAngles ?xs ! 1 = JsNaN" by simp
  from n have "(2::nat) < length ?xs \<longrightarrow>
      (normalizeAngles ?xs ! 2 = JsNaN \<longleftrightarrow> (\<forall>x. ?xs ! 2 \<noteq> JsFinite x))"
    by (rule spec)
  then have d: "normalizeAngles ?xs ! 2 = JsNaN" by simp
  from t have "\<forall>j < length ?xs. \<forall>x. ?xs ! j = JsFinite x \<longrightarrow>
      normalizeAngles ?xs ! j = JsFinite (normalizeAngle x) \<and>
      - 180 \<le> normalizeAngle x \<and> normalizeAngle x \<le> 180"
    by blast
  then have "(0::nat) < length ?xs \<longrightarrow> (\<forall>x. ?xs ! 0 = JsFinite x \<longrightarrow>
      normalizeAngles ?xs ! 0 = JsFinite (normalizeAngle x) \<and>
      - 180 \<le> normalizeAngle x \<and> normalizeAngle x \<le> 180)"
    by (rule spec)
  then have b: "normalizeAngles ?xs ! 0 = JsFinite (normalizeAngle (- 540))" by simp
  from a b c d show ?thesis by blast
qed

text \<open>
  C4. For every target matrix, seed and DH configuration, \<open>inverseKinematics\<close> runs at
  most 200 update passes and returns a vector: the seed after that many update passes,
  normalised, of the seed's length. It has no failure result; it stops either at the cap
  of 200 or at an estimate that passes the convergence check.
\<close>

theorem inverseKinematics_iteration_cap:
  "ik_iterations srv T seed \<le> 200 \<and>
   inverseKinematics srv T seed =
     map normalizeAngle
       ((ikUpdate srv (ik_targetPos T) (ik_targetQuat T) ^^ ik_iterations srv T seed) seed) \<and>
   length (inverseKinematics srv T seed) = length seed \<and>
   (ik_iterations srv T seed = 200 \<or>
    ikConverged srv (ik_targetPos T) (ik_targetQuat T)
      ((ikUpdate srv (ik_targetPos T) (ik_targetQuat T) ^^ ik_iterations srv T seed) seed))"
proof -
  from ik_run_iterate [of srv T seed] obtain k where k: "k \<le> maxIterations"
    "ik_run srv T seed = ((ikUpdate srv (ik_targetPos T) (ik_targetQuat T) ^^ k) seed, k)"
    "k = maxIterations \<or>
        ikConverged srv (ik_targetPos T) (ik_targetQuat T)
          ((ikUpdate srv (ik_targetPos T) (ik_targetQuat T) ^^ k) seed)"
    by blast
  have it: "ik_iterations srv T seed = k" by (simp add: ik_iterations_def k(2))
  show ?thesis
    using k(1,3) unfolding it
    by (simp add: inverseKinematics_def k(2) length_funpow_ikUpdate maxIterations_def)
qed

subsection \<open>Playback\<close>








lemma playerFrame_length:
  "length (pb_angles (fst (playerFrame delta \<lparr> pb_queue = T # rest, pb_angles = cur \<rparr>))) = length cur"
  by (simp add: playerFrame_def Let_def)




subsection \<open>Path generators\<close>

lemma fold_addPt_snoc:
  "fold (\<lambda>i. addPt srv q (f i)) [0..<Suc n] st = addPt srv q (f n) (fold (\<lambda>i. addPt srv q (f i)) [0..<n] st)"
  by simp

lemma fold_addPt_chain:
  "length (fst (fold (\<lambda>i. addPt srv q (f i)) [0..<n] ([], seed))) = n \<and>
   snd (fold (\<lambda>i. addPt srv q (f i)) [0..<n] ([], seed)) =
     (if n = 0 then seed else fst (fold (\<lambda>i. addPt srv q (f i)) [0..<n] ([], seed)) ! (n - 1)) \<and>
   (\<forall>i < n. fst (fold (\<lambda>i. addPt srv q (f i)) [0..<n] ([], seed)) ! i =
      inverseKinematics srv (compose (f i) q (Vector3 1 1 1))
        (if i = 0 then seed else fst (fold (\<lambda>i. addPt srv q (f i)) [0..<n] ([], seed)) ! (i - 1)))"
proof (induction n)
  case 0
  show ?case by simp
next
  case (Suc n)
  let ?S = "fold (\<lambda>i. addPt srv q (f i)) [0..<n] ([], seed)"
  obtain sols sd where S: "?S = (sols, sd)" by (cases ?S) auto
  note IH = Suc.IH [unfolded S fst_conv snd_conv]
  from IH have len: "length sols = n" by (rule conjunct1)
  from IH have sd: "sd = (if n = 0 then seed else sols ! (n - 1))" by (rule conjunct1 [OF conjunct2])
  from IH have ih: "\<forall>i < n. sols ! i = inverseKinematics srv (compose (f i) q (Vector3 1 1 1))
        (if i = 0 then seed else sols ! (i - 1))"
    by (rule conjunct2 [OF conjunct2])
  let ?sol = "inverseKinematics srv (compose (f n) q (Vector3 1 1 1)) sd"
  have step: "fold (\<lambda>i. addPt srv q (f i)) [0..<Suc n] ([], seed) = (sols @ [?sol], ?sol)"
    by (simp add: S addPt_def Let_def)
  have nth: "\<forall>i < Suc n. (sols @ [?sol]) ! i =
      inverseKinematics srv (compose (f i) q (Vector3 1 1 1))
        (if i = 0 then seed else (sols @ [?sol]) ! (i - 1))"
  proof (intro allI impI)
    fix i assume "i < Suc n"
    then consider "i < n" | "i = n" by linarith
    then show "(sols @ [?sol]) ! i =
      inverseKinematics srv (compose (f i) q (Vector3 1 1 1))
        (if i = 0 then seed else (sols @ [?sol]) ! (i - 1))"
    proof cases
      case 1
      with ih have e: "sols ! i = inverseKinematics srv (compose (f i) q (Vector3 1 1 1))
        (if i = 0 then seed else sols ! (i - 1))" by blast
      have "(sols @ [?sol]) ! i = sols ! i" using 1 len by (simp add: nth_append)
      moreover have "(sols @ [?sol]) ! (i - 1) = sols ! (i - 1)"
      proof -
        have "i - 1 < length sols" using 1 len by simp
        then show ?thesis by (simp only: nth_append if_True)
      qed
      ultimately show ?thesis using e by auto
    next
      case 2
      have "(sols @ [?sol]) ! i = ?sol" using 2 len by (simp add: nth_append)
      moreover have "i \<noteq> 0 \<Longrightarrow> (sols @ [?sol]) ! (i - 1) = sols ! (n - 1)"
      proof -
        assume "i \<noteq> 0"
        with 2 have "i - 1 < length sols" using len by simp
        then have "(sols @ [?sol]) ! (i - 1) = sols ! (i - 1)" by (simp only: nth_append if_True)
        with 2 show ?thesis by simp
      qed
      ultimately show ?thesis using 2 sd by auto
    qed
  qed
  have l: "length (sols @ [?sol]) = Suc n" using len by simp
  have s: "?sol = (if Suc n = 0 then seed else (sols @ [?sol]) ! (Suc n - 1))"
    using len by (simp add: nth_append)
  show ?case unfolding step fst_conv snd_conv
    by (intro conjI l s nth)
qed

text \<open>
  C7. From the current end-effector pose, the \<open>line\<close> generator produces exactly 61
  solutions. Waypoint \<open>i\<close> is the linear interpolation at \<open>i / 60\<close> between the start
  position and the start position moved by +500 along X (waypoint 0 is the start, waypoint
  60 the end); every waypoint is composed with the one quaternion of the start pose's
  rotation; and solution \<open>i\<close> is \<open>inverseKinematics\<close> on waypoint \<open>i\<close> seeded with
  solution \<open>i - 1\<close> (the current joint angles for \<open>i = 0\<close>).
\<close>

theorem generateTrajectoryPoints_line:
  "length (generateTrajectoryPoints srv js Line) = 61 \<and>
   (\<forall>i < 61. generateTrajectoryPoints srv js Line ! i =
      inverseKinematics srv
        (compose (lineWaypoint srv js i) (lineStartQuat srv js) (Vector3 1 1 1))
        (if i = 0 then js else generateTrajectoryPoints srv js Line ! (i - 1))) \<and>
   lineWaypoint srv js k =
     Vector3 (vx (lineStartPos srv js) + 500 * (real k / 60)) (vy (lineStartPos srv js))
             (vz (lineStartPos srv js)) \<and>
   lineWaypoint srv js 0 = lineStartPos srv js \<and>
   lineWaypoint srv js 60 =
     Vector3 (vx (lineStartPos srv js) + 500) (vy (lineStartPos srv js)) (vz (lineStartPos srv js))"
proof -
  have gen: "fst (fold (\<lambda>i. addPt srv (lineStartQuat srv js) (lineWaypoint srv js i)) [0..<61] ([], js)) =
      generateTrajectoryPoints srv js Line"
  proof -
    have n: "(60::nat) + 1 = 61" by simp
    have r: "real (60::nat) = 60" by simp
    show ?thesis
      by (simp only: generateTrajectoryPoints_def Let_def TrajectoryType.case n r
          lineWaypoint_def lineStartPos_def lineEndPos_def lineStartQuat_def)
  qed
  have w: "lineWaypoint srv js n =
     Vector3 (vx (lineStartPos srv js) + 500 * (real n / 60)) (vy (lineStartPos srv js))
             (vz (lineStartPos srv js))" for n
    by (simp add: lineWaypoint_def lerpVectors_def lineEndPos_def)
  have w0: "lineWaypoint srv js 0 = lineStartPos srv js"
    by (simp add: w)
  have w60: "lineWaypoint srv js 60 =
     Vector3 (vx (lineStartPos srv js) + 500) (vy (lineStartPos srv js)) (vz (lineStartPos srv js))"
    by (simp add: w)
  note ch = fold_addPt_chain [of srv "lineStartQuat srv js" "lineWaypoint srv js" 61 js, unfolded gen]
  from ch have len: "length (generateTrajectoryPoints srv js Line) = 61" by (rule conjunct1)
  from ch have sols: "\<forall>i < 61. generateTrajectoryPoints srv js Line ! i =
      inverseKinematics srv
        (compose (lineWaypoint srv js i) (lineStartQuat srv js) (Vector3 1 1 1))
        (if i = 0 then js else generateTrajectoryPoints srv js Line ! (i - 1))"
    by (rule conjunct2 [OF conjunct2])
  show ?thesis by (intro conjI len sols w w0 w60)
qed

theorem generateTrajectoryPoints_line_witness:
  "length (generateTrajectoryPoints kinematics [0, 0, 0, 0, 0, 0] Line) = 61 \<and>
   generateTrajectoryPoints kinematics [0, 0, 0, 0, 0, 0] Line ! 1 =
     inverseKinematics kinematics
       (compose (lineWaypoint kinematics [0, 0, 0, 0, 0, 0] 1)
          (lineStartQuat kinematics [0, 0, 0, 0, 0, 0]) (Vector3 1 1 1))
       (generateTrajectoryPoints kinematics [0, 0, 0, 0, 0, 0] Line ! 0)"
proof -
  note t = generateTrajectoryPoints_line [of kinematics "[0, 0, 0, 0, 0, 0]"]
  from t have len: "length (generateTrajectoryPoints kinematics [0, 0, 0, 0, 0, 0] Line) = 61"
    by (rule conjunct1)
  from t have "\<forall>i < 61. generateTrajectoryPoints kinematics [0, 0, 0, 0, 0, 0] Line ! i =
      inverseKinematics kinematics
        (compose (lineWaypoint kinematics [0, 0, 0, 0, 0, 0] i)
           (lineStartQuat kinematics [0, 0, 0, 0, 0, 0]) (Vector3 1 1 1))
        (if i = 0 then [0, 0, 0, 0, 0, 0]
         else generateTrajectoryPoints kinematics [0, 0, 0, 0, 0, 0] Line ! (i - 1))"
    by (rule conjunct1 [OF conjunct2])
  then have "(1::nat) < 61 \<longrightarrow> generateTrajectoryPoints kinematics [0, 0, 0, 0, 0, 0] Line ! 1 =
      inverseKinematics kinematics
        (compose (lineWaypoint kinematics [0, 0, 0, 0, 0, 0] 1)
           (lineStartQuat kinematics [0, 0, 0, 0, 0, 0]) (Vector3 1 1 1))
        (if (1::nat) = 0 then [0, 0, 0, 0, 0, 0]
         else generateTrajectoryPoints kinematics [0, 0, 0, 0, 0, 0] Line ! (1 - 1))"
    by (rule spec)
  then have "generateTrajectoryPoints kinematics [0, 0, 0, 0, 0, 0] Line ! 1 =
      inverseKinematics kinematics
        (compose (lineWaypoint kinematics [0, 0, 0, 0, 0, 0] 1)
           (lineStartQuat kinematics [0, 0, 0, 0, 0, 0]) (Vector3 1 1 1))
        (generateTrajectoryPoints kinematics [0, 0, 0, 0, 0, 0] Line ! 0)"
    by simp
  with len show ?thesis by (rule conjI)
qed

subsection \<open>The parser\<close>

lemma startsWith_iff: "startsWith s p \<longleftrightarrow> (\<exists>r. s = p @ r)"
  by (induction s p rule: startsWith.induct) auto

lemma includesStr_iff: "includesStr s sub \<longleftrightarrow> (\<exists>ps ss. s = ps @ sub @ ss)"
proof (induction s)
  case Nil
  then show ?case by auto
next
  case (Cons c cs)
  show ?case
  proof
    assume "includesStr (c # cs) sub"
    then consider "startsWith (c # cs) sub" | "includesStr cs sub" by auto
    then show "\<exists>ps ss. c # cs = ps @ sub @ ss"
    proof cases
      case 1
      then obtain r where "c # cs = sub @ r" by (auto simp: startsWith_iff)
      then have "c # cs = [] @ sub @ r" by simp
      then show ?thesis by blast
    next
      case 2
      with Cons.IH obtain ps ss where "cs = ps @ sub @ ss" by blast
      then have "c # cs = (c # ps) @ sub @ ss" by simp
      then show ?thesis by blast
    qed
  next
    assume "\<exists>ps ss. c # cs = ps @ sub @ ss"
    then obtain ps ss where e: "c # cs = ps @ sub @ ss" by blast
    show "includesStr (c # cs) sub"
    proof (cases ps)
      case Nil
      with e have "startsWith (c # cs) sub" by (auto simp: startsWith_iff)
      then show ?thesis by simp
    next
      case (Cons p ps')
      with e have "cs = ps' @ sub @ ss" by simp
      with Cons.IH have "includesStr cs sub" by blast
      then show ?thesis by simp
    qed
  qed
qed

lemma fold_trajectoryLine:
  "fold trajectoryLine ls acc = acc @ map parseLineToPose (filter isWaypointLine ls)"
  by (induction ls arbitrary: acc) (simp_all add: trajectoryLine_def isWaypointLine_def)

lemma parseTrajectory_filter:
  "parseTrajectory txt = map parseLineToPose (filter isWaypointLine (splitLines txt))"
  by (simp add: parseTrajectory_def fold_trajectoryLine)

lemma world_not_tool: "startsWith t ''world1'' \<Longrightarrow> \<not> startsWith t ''tool1''"
  by (cases t) auto

lemma fold_globalVarsLine_world:
  "cfg_world (fold globalVarsLine ls config) =
     (if filter isWorldLine ls = [] then cfg_world config
      else parseLineToPose (last (filter isWorldLine ls)))"
  by (induction ls arbitrary: config) (simp_all add: globalVarsLine_def isWorldLine_def)

lemma fold_globalVarsLine_tool:
  "cfg_tool (fold globalVarsLine ls config) =
     (if filter isToolLine ls = [] then cfg_tool config
      else parseLineToPose (last (filter isToolLine ls)))"
  by (induction ls arbitrary: config)
     (auto simp add: globalVarsLine_def isToolLine_def world_not_tool)

lemma asciiUpper_keys:
  "asciiUpper CHR ''x'' = CHR ''X''" "asciiUpper CHR ''y'' = CHR ''Y''" "asciiUpper CHR ''z'' = CHR ''Z''"
  "asciiUpper CHR ''a'' = CHR ''A''" "asciiUpper CHR ''b'' = CHR ''B''" "asciiUpper CHR ''c'' = CHR ''C''"
  by (simp_all add: asciiUpper_def)

lemma parseGlobalVars_empty:
  "parseGlobalVars '''' = \<lparr> cfg_world = defaultPose, cfg_tool = defaultPose \<rparr>"
  by (simp add: parseGlobalVars_def globalVarsLine_def trim_def)

lemma parseGlobalVars_world_example:
  "cfg_world (parseGlobalVars ''world1 x := 100 y := -50'') =
     \<lparr> pose_x = Num 100, pose_y = Num (- 50), pose_z = Num 0,
       pose_a = Num 0, pose_b = Num 0, pose_c = Num 0 \<rparr>"
  by (simp add: parseGlobalVars_def globalVarsLine_def trim_def parseLineToPose_def orElse_def
       parseKeyValue_def matchHere_def keyMatches_def asciiUpper_keys isWhiteSpace_def isNumberChar_def
       parseFloat_def isDigit_def digitsValue_def digitValue_def)

lemma parseLineToPose_missing_key:
  "(regexMatch CHR ''x'' line = None \<longrightarrow> pose_x (parseLineToPose line) = Num 0) \<and>
   (regexMatch CHR ''y'' line = None \<longrightarrow> pose_y (parseLineToPose line) = Num 0) \<and>
   (regexMatch CHR ''z'' line = None \<longrightarrow> pose_z (parseLineToPose line) = Num 0) \<and>
   (regexMatch CHR ''a'' line = None \<longrightarrow> pose_a (parseLineToPose line) = Num 0) \<and>
   (regexMatch CHR ''b'' line = None \<longrightarrow> pose_b (parseLineToPose line) = Num 0) \<and>
   (regexMatch CHR ''c'' line = None \<longrightarrow> pose_c (parseLineToPose line) = Num 0)"
  by (simp add: parseLineToPose_def parseKeyValue_def orElse_def)

lemma parseGlobalVars_no_number_example:
  "pose_x (cfg_world (parseGlobalVars ''world1 x := abc'')) = Num 0"
  by (simp add: parseGlobalVars_def globalVarsLine_def trim_def parseLineToPose_def orElse_def
       parseKeyValue_def matchHere_def keyMatches_def asciiUpper_keys isWhiteSpace_def isNumberChar_def
       parseFloat_def isDigit_def digitsValue_def digitValue_def)

text \<open>
  C8. The two examples of the claim hold (\<open>parseGlobalVars_empty\<close>,
  \<open>parseGlobalVars_world_example\<close>), and a key the expression does not match
  defaults to 0 (\<open>parseLineToPose_missing_key\<close>), as in \<open>world1 x := abc\<close>
  (\<open>parseGlobalVars_no_number_example\<close>). A malformed value does not always parse to 0:
  on the matched line \<open>world1 x := -\<close> the expression captures \<open>-\<close>, \<open>parseFloat\<close>
  yields NaN, and \<open>??\<close> keeps it, so the world pose has \<open>x = NaN\<close>.
\<close>

theorem parseGlobalVars_malformed_value_is_NaN:
  "pose_x (cfg_world (parseGlobalVars ''world1 x := -'')) = NaN \<and>
   pose_x (cfg_world (parseGlobalVars ''world1 x := -'')) \<noteq> Num 0"
  by (simp add: parseGlobalVars_def globalVarsLine_def trim_def parseLineToPose_def orElse_def
       parseKeyValue_def matchHere_def keyMatches_def asciiUpper_keys isWhiteSpace_def isNumberChar_def
       parseFloat_def isDigit_def digitsValue_def digitValue_def)

text \<open>
  C9. \<open>parseTrajectory\<close> captures exactly the lines that contain \<open>CARTPOS\<close> and
  \<open>x :=\<close> as substrings, parses each with \<open>parseLineToPose\<close> and keeps the order of
  the text. The line \<open>cp1 CARTPOS x := 10 y := 20 z := 30\<close> gives the waypoint
  \<open>{10, 20, 30, 0, 0, 0}\<close>; a line without \<open>CARTPOS\<close>, or without \<open>x :=\<close>, is skipped.
\<close>

theorem parseTrajectory_waypoint_lines:
  "parseTrajectory txt = map parseLineToPose (filter isWaypointLine (splitLines txt)) \<and>
   (isWaypointLine line \<longleftrightarrow>
      (\<exists>ps ss. line = ps @ ''CARTPOS'' @ ss) \<and> (\<exists>ps ss. line = ps @ ''x :='' @ ss)) \<and>
   parseTrajectory ''cp1 CARTPOS x := 10 y := 20 z := 30'' =
     [\<lparr> pose_x = Num 10, pose_y = Num 20, pose_z = Num 30,
        pose_a = Num 0, pose_b = Num 0, pose_c = Num 0 \<rparr>] \<and>
   parseTrajectory ''cp1 x := 10 y := 20 z := 30'' = [] \<and>
   parseTrajectory ''cp1 CARTPOS y := 20 z := 30'' = []"
proof -
  have ex1: "parseTrajectory ''cp1 CARTPOS x := 10 y := 20 z := 30'' =
     [\<lparr> pose_x = Num 10, pose_y = Num 20, pose_z = Num 30,
        pose_a = Num 0, pose_b = Num 0, pose_c = Num 0 \<rparr>]"
    by (simp add: parseTrajectory_def trajectoryLine_def parseLineToPose_def orElse_def
       parseKeyValue_def matchHere_def keyMatches_def asciiUpper_keys isWhiteSpace_def isNumberChar_def
       parseFloat_def isDigit_def digitsValue_def digitValue_def)
  have ex2: "parseTrajectory ''cp1 x := 10 y := 20 z := 30'' = []"
    by (simp add: parseTrajectory_def trajectoryLine_def)
  have ex3: "parseTrajectory ''cp1 CARTPOS y := 20 z := 30'' = []"
    by (simp add: parseTrajectory_def trajectoryLine_def)
  have sub: "isWaypointLine line \<longleftrightarrow>
      (\<exists>ps ss. line = ps @ ''CARTPOS'' @ ss) \<and> (\<exists>ps ss. line = ps @ ''x :='' @ ss)"
    by (simp only: isWaypointLine_def includesStr_iff)
  from parseTrajectory_filter sub ex1 ex2 ex3 show ?thesis by (intro conjI)
qed

text \<open>
  C10. The world pose \<open>parseGlobalVars\<close> returns is the pose parsed from the last line
  whose trimmed text starts with \<open>world1\<close> (the default pose when there is none), and
  the tool pose likewise for \<open>tool1\<close>: each matching line replaces the stored pose as a
  whole. With \<open>world1 x := 5 y := 7\<close> followed by \<open>world1 x := 9\<close>, the world pose has
  \<open>x = 9\<close> and \<open>y = 0\<close>.
\<close>

theorem parseGlobalVars_last_line_wins:
  "cfg_world (parseGlobalVars txt) =
     (if filter isWorldLine (splitLines txt) = [] then defaultPose
      else parseLineToPose (last (filter isWorldLine (splitLines txt)))) \<and>
   cfg_tool (parseGlobalVars txt) =
     (if filter isToolLine (splitLines txt) = [] then defaultPose
      else parseLineToPose (last (filter isToolLine (splitLines txt)))) \<and>
   cfg_world (parseGlobalVars ''world1 x := 5 y := 7\<newline>world1 x := 9'') =
     \<lparr> pose_x = Num 9, pose_y = Num 0, pose_z = Num 0,
       pose_a = Num 0, pose_b = Num 0, pose_c = Num 0 \<rparr>"
proof -
  have ex: "cfg_world (parseGlobalVars ''world1 x := 5 y := 7\<newline>world1 x := 9'') =
     \<lparr> pose_x = Num 9, pose_y = Num 0, pose_z = Num 0,
       pose_a = Num 0, pose_b = Num 0, pose_c = Num 0 \<rparr>"
    by (simp add: parseGlobalVars_def globalVarsLine_def trim_def parseLineToPose_def orElse_def
       parseKeyValue_def matchHere_def keyMatches_def asciiUpper_keys isWhiteSpace_def isNumberChar_def
       parseFloat_def isDigit_def digitsValue_def digitValue_def)
  have w: "cfg_world (parseGlobalVars txt) =
     (if filter isWorldLine (splitLines txt) = [] then defaultPose
      else parseLineToPose (last (filter isWorldLine (splitLines txt))))"
    by (simp add: parseGlobalVars_def fold_globalVarsLine_world)
  have t: "cfg_tool (parseGlobalVars txt) =
     (if filter isToolLine (splitLines txt) = [] then defaultPose
      else parseLineToPose (last (filter isToolLine (splitLines txt))))"
    by (simp add: parseGlobalVars_def fold_globalVarsLine_tool)
  from w t ex show ?thesis by (intro conjI)
qed

end
